theory Spec2Isabelle
  imports Main
begin

unbundle bit_operations_syntax

section \<open>Errors\<close>

text \<open>
  Every exception the modelled code can raise is a value. \<open>SourceError\<close> carries the
  message of the \<^verbatim>\<open>raise\<close>, since the class is shared by the buffer under-run, the
  rewind under-run and the both-endian mismatch. \<open>UnboundLocalError\<close> and
  \<open>AttributeError\<close> are what Python raises when a local variable or an attribute
  is read before it was ever assigned.
\<close>

datatype error =
    SourceError string
  | SUSPError
  | AssertionError
  | KeyError
  | AttributeError
  | UnboundLocalError
  | ValueError

definition bind :: "error + 'a \<Rightarrow> ('a \<Rightarrow> error + 'b) \<Rightarrow> error + 'b" where
  "bind m f = (case m of Inl e \<Rightarrow> Inl e | Inr x \<Rightarrow> f x)"

lemma bind_Inl [simp]: "bind (Inl e) f = Inl e"
  by (simp add: bind_def)

lemma bind_Inr [simp]: "bind (Inr x) f = f x"
  by (simp add: bind_def)

lemma bind_cong [fundef_cong]:
  "m = m' \<Longrightarrow> (\<And>x. m' = Inr x \<Longrightarrow> f x = f' x) \<Longrightarrow> bind m f = bind m' f'"
  by (cases m') (simp_all add: bind_def)

lemma bind_eq_Inr: "bind m f = Inr y \<longleftrightarrow> (\<exists>x. m = Inr x \<and> f x = Inr y)"
  by (cases m) simp_all

section \<open>source.py: the byte source\<close>

text \<open>
  Python 2 strings are byte strings, and so are HOL's: a \<open>char\<close> is one byte. The
  working buffer is a \<open>string\<close>; the cursor is the position of the buffer object. Every
  reader below takes the buffer and the cursor and returns the value read with the new
  cursor, or the exception raised.
\<close>

definition SECTOR_LENGTH :: nat where
  "SECTOR_LENGTH = 2048"

definition byte :: "char \<Rightarrow> int" where
  "byte c = of_char c"

text \<open>
  \<^verbatim>\<open>unpack_raw(l)\<close>: \<^verbatim>\<open>data = self._buff.read(l)\<close>, and a buffer under-run when fewer than
  \<open>l\<close> bytes came back. A negative \<open>l\<close> makes \<^verbatim>\<open>read\<close> return everything up to the end
  of the buffer, and then \<^verbatim>\<open>len(data) < l\<close> is false.
\<close>

definition unpack_raw :: "string \<Rightarrow> nat \<Rightarrow> int \<Rightarrow> error + (string \<times> nat)" where
  "unpack_raw buff cur l =
     (let data = (if l < 0 then drop cur buff else take (nat l) (drop cur buff)) in
      if int (length data) < l then Inl (SourceError ''Source buffer under-run'')
      else Inr (data, cur + length data))"

text \<open>\<^verbatim>\<open>rewind_raw(l)\<close>.\<close>

definition rewind_raw :: "nat \<Rightarrow> int \<Rightarrow> error + nat" where
  "rewind_raw cur l =
     (if int cur < l then Inl (SourceError ''Rewind buffer under-run'')
      else Inr (nat (int cur - l)))"

subsection \<open>The struct module, as far as the source uses it\<close>

text \<open>
  The integer format codes of \<^verbatim>\<open>struct\<close> in standard (\<^verbatim>\<open><\<close> or \<^verbatim>\<open>>\<close>) mode, their
  sizes and their signedness. The float, char, string and pad codes are left out.
\<close>

datatype code = Fb | FB | Fh | FH | Fi | FI | Fl | FL | Fq | FQ

datatype endian = LittleEndian | BigEndian

fun calcsize1 :: "code \<Rightarrow> nat" where
  "calcsize1 Fb = 1" | "calcsize1 FB = 1"
| "calcsize1 Fh = 2" | "calcsize1 FH = 2"
| "calcsize1 Fi = 4" | "calcsize1 FI = 4"
| "calcsize1 Fl = 4" | "calcsize1 FL = 4"
| "calcsize1 Fq = 8" | "calcsize1 FQ = 8"

fun is_signed :: "code \<Rightarrow> bool" where
  "is_signed Fb = True" | "is_signed FB = False"
| "is_signed Fh = True" | "is_signed FH = False"
| "is_signed Fi = True" | "is_signed FI = False"
| "is_signed Fl = True" | "is_signed FL = False"
| "is_signed Fq = True" | "is_signed FQ = False"

definition calcsize :: "code list \<Rightarrow> nat" where
  "calcsize st = sum_list (map calcsize1 st)"

text \<open>The unsigned value of a byte string, least significant byte first.\<close>

fun le_value :: "string \<Rightarrow> int" where
  "le_value [] = 0"
| "le_value (c # cs) = byte c + 256 * le_value cs"

definition field_value :: "endian \<Rightarrow> code \<Rightarrow> string \<Rightarrow> int" where
  "field_value e c bs =
     (let u = le_value (case e of LittleEndian \<Rightarrow> bs | BigEndian \<Rightarrow> rev bs) in
      if is_signed c \<and> 2 ^ (8 * calcsize1 c - 1) \<le> u then u - 2 ^ (8 * calcsize1 c) else u)"

text \<open>\<^verbatim>\<open>struct.unpack(e + st, raw)\<close> for a \<open>raw\<close> of \<^verbatim>\<open>calcsize\<close> bytes: one value per code.\<close>

fun struct_unpack :: "endian \<Rightarrow> code list \<Rightarrow> string \<Rightarrow> int list" where
  "struct_unpack e [] raw = []"
| "struct_unpack e (c # st) raw =
     field_value e c (take (calcsize1 c) raw) # struct_unpack e st (drop (calcsize1 c) raw)"

text \<open>
  \<^verbatim>\<open>_unpack_both(st)\<close> reads \<^verbatim>\<open>calcsize('<'+st)\<close> bytes once and decodes the same bytes
  both ways.
\<close>

definition unpack_both' :: "string \<Rightarrow> nat \<Rightarrow> code list \<Rightarrow> error + ((int list \<times> int list) \<times> nat)" where
  "unpack_both' buff cur st =
     bind (unpack_raw buff cur (int (calcsize st))) (\<lambda>(raw, cur').
       Inr ((struct_unpack LittleEndian st raw, struct_unpack BigEndian st raw), cur'))"

text \<open>
  \<^verbatim>\<open>unpack_both(st)\<close>: \<^verbatim>\<open>((a, _), (_, b)) = self._unpack_both(st+st)\<close>, so \<open>a\<close> is the
  first little-endian value and \<open>b\<close> the second big-endian one. The format is a single
  code by the \<^verbatim>\<open>assert len(st) == 1\<close>, hence a \<open>code\<close> here.
\<close>

definition unpack_both :: "string \<Rightarrow> nat \<Rightarrow> code \<Rightarrow> error + (int \<times> nat)" where
  "unpack_both buff cur st =
     bind (unpack_both' buff cur [st, st]) (\<lambda>((le, be), cur').
       let a = le ! 0; b = be ! 1 in
       if a \<noteq> b then Inl (SourceError ''Both-endian value mismatch'')
       else Inr (a, cur'))"

text \<open>
  \<^verbatim>\<open>unpack(st)\<close> for a format of one code (\<^verbatim>\<open>'B'\<close>, or \<^verbatim>\<open>'<I'\<close>): little-endian unless
  the format says otherwise, and the single value rather than the tuple.
\<close>

definition unpack1 :: "string \<Rightarrow> nat \<Rightarrow> endian \<Rightarrow> code \<Rightarrow> error + (int \<times> nat)" where
  "unpack1 buff cur e c =
     bind (unpack_raw buff cur (int (calcsize [c]))) (\<lambda>(raw, cur').
       Inr (struct_unpack e [c] raw ! 0, cur'))"

abbreviation unpack_B :: "string \<Rightarrow> nat \<Rightarrow> error + (int \<times> nat)" where
  "unpack_B buff cur \<equiv> unpack1 buff cur LittleEndian FB"

text \<open>\<^verbatim>\<open>unpack(st)\<close> for a format of several integer codes: the tuple of values.\<close>

definition unpack :: "string \<Rightarrow> nat \<Rightarrow> endian \<Rightarrow> code list \<Rightarrow> error + (int list \<times> nat)" where
  "unpack buff cur e st =
     bind (unpack_raw buff cur (int (calcsize st))) (\<lambda>(raw, cur').
       Inr (struct_unpack e st raw, cur'))"

lemma unpack_raw_nonneg:
  "0 \<le> l \<Longrightarrow> unpack_raw buff cur l =
     (if nat l \<le> length buff - cur then Inr (take (nat l) (drop cur buff), cur + nat l)
      else Inl (SourceError ''Source buffer under-run''))"
  by (auto simp: unpack_raw_def Let_def min_def)

lemma unpack_raw_cursor:
  "unpack_raw buff cur l = Inr (data, cur') \<Longrightarrow> cur' = cur + length data \<and> cur \<le> cur'"
  by (auto simp: unpack_raw_def Let_def split: if_splits)

lemma unpack1_cursor:
  "unpack1 buff cur e c = Inr (v, cur') \<Longrightarrow> cur' = cur + calcsize1 c"
  by (auto simp: unpack1_def calcsize_def unpack_raw_nonneg bind_eq_Inr split: if_splits)

text \<open>
  \<^verbatim>\<open>unpack('2sBB')\<close>, the header of a SUSP entry: a two-byte signature and two
  unsigned bytes.
\<close>

definition unpack_2sBB :: "string \<Rightarrow> nat \<Rightarrow> error + ((string \<times> int \<times> int) \<times> nat)" where
  "unpack_2sBB buff cur =
     bind (unpack_raw buff cur 4) (\<lambda>(raw, cur').
       Inr ((take 2 raw, byte (raw ! 2), byte (raw ! 3)), cur'))"

text \<open>\<^verbatim>\<open>unpack_string(l)\<close>: \<^verbatim>\<open>self.unpack_raw(l).rstrip(' ')\<close>.\<close>

definition rstrip_space :: "string \<Rightarrow> string" where
  "rstrip_space s = rev (dropWhile (\<lambda>c. c = CHR '' '') (rev s))"

definition unpack_string :: "string \<Rightarrow> nat \<Rightarrow> int \<Rightarrow> error + (string \<times> nat)" where
  "unpack_string buff cur l =
     bind (unpack_raw buff cur l) (\<lambda>(raw, cur'). Inr (rstrip_space raw, cur'))"

subsection \<open>Directory datetimes\<close>

text \<open>
  \<^verbatim>\<open>unpack_dir_datetime\<close> reads \<^verbatim>\<open>'<6Bb'\<close> and builds
  \<^verbatim>\<open>datetime.datetime(t[0]+1900, *t[1:-1], tzinfo=ISO_tzinfo(t[-1]*15))\<close>, which raises
  \<open>ValueError\<close> unless the fields are a date of the calendar and a time of the day.
\<close>

record datetime =
  year :: int
  month :: int
  day :: int
  hour :: int
  minute :: int
  second :: int
  tz_offset :: int

definition is_leap :: "int \<Rightarrow> bool" where
  "is_leap y = (y mod 4 = 0 \<and> (y mod 400 = 0 \<or> y mod 100 \<noteq> 0))"

definition days_in_month :: "int \<Rightarrow> int \<Rightarrow> int" where
  "days_in_month y m =
     (if m = 2 then (if is_leap y then 29 else 28)
      else if m = 4 \<or> m = 6 \<or> m = 9 \<or> m = 11 then 30 else 31)"

definition unpack_dir_datetime' :: "int list \<Rightarrow> error + datetime" where
  "unpack_dir_datetime' t =
     (let y = t ! 0 + 1900; mo = t ! 1; d = t ! 2; h = t ! 3; mi = t ! 4; s = t ! 5 in
      if 1 \<le> y \<and> y \<le> 9999 \<and> 1 \<le> mo \<and> mo \<le> 12 \<and> 1 \<le> d \<and> d \<le> days_in_month y mo
         \<and> 0 \<le> h \<and> h \<le> 23 \<and> 0 \<le> mi \<and> mi \<le> 59 \<and> 0 \<le> s \<and> s \<le> 59
      then Inr \<lparr>year = y, month = mo, day = d, hour = h, minute = mi, second = s,
                tz_offset = t ! 6 * 15\<rparr>
      else Inl ValueError)"

definition unpack_dir_datetime :: "string \<Rightarrow> nat \<Rightarrow> error + (datetime \<times> nat)" where
  "unpack_dir_datetime buff cur =
     bind (unpack buff cur LittleEndian [FB, FB, FB, FB, FB, FB, Fb]) (\<lambda>(t, cur').
       bind (unpack_dir_datetime' t) (\<lambda>dt. Inr (dt, cur')))"

section \<open>SUSP entries\<close>

text \<open>
  The entries of the System Use Sharing Protocol and of Rock Ridge, as a tagged union. A
  field no claim reads is left out. \<open>NM\<close> carries its \<^verbatim>\<open>name\<close> attribute as an option:
  the constructor in \<^verbatim>\<open>rockridge.py\<close> assigns it only on some branches, and an attribute
  never assigned is absent from the object.
\<close>

datatype susp_entry =
    is_SP: SP (len_skp: int)
  | is_CE: CE (ce_location: int) (ce_offset: int) (ce_length: int)
  | is_ST: ST
  | is_ER: ER (ext_id: string) (ext_ver: int)
  | is_NM: NM (nm_flags: int) (nm_name: "string option")
  | is_SL: SL (sl_flags: int) (sl_path: string)
  | RR int
  | PX "int list"
  | PN int int
  | TF int "string list"
  | is_Unknown: UnknownEntry (un_signature: string) (un_version: int) (un_raw: string)

text \<open>\<^verbatim>\<open>susp_assert(condition)\<close> raises \<open>SUSPError\<close> when the condition is false.\<close>

definition susp_assert :: "bool \<Rightarrow> error + unit" where
  "susp_assert b = (if b then Inr () else Inl SUSPError)"

lemma susp_assert_simps [simp]:
  "susp_assert True = Inr ()" "susp_assert False = Inl SUSPError"
  by (simp_all add: susp_assert_def)

subsection \<open>rockridge.py\<close>

definition RRIP_109 :: "string \<times> int" where
  "RRIP_109 = (''RRIP_1991A'', 1)"

definition RRIP_112 :: "string \<times> int" where
  "RRIP_112 = (''IEEE_P1282'', 1)"

definition EXT_VERSIONS :: "(string \<times> int) list" where
  "EXT_VERSIONS = [RRIP_109, RRIP_112]"

definition NM_CONTINUE :: int where "NM_CONTINUE = 1"
definition NM_CURRENT :: int where "NM_CURRENT = 2"
definition NM_PARENT :: int where "NM_PARENT = 4"

text \<open>
  \<^verbatim>\<open>NM.__init__(source, ext_id_ver, sig_version, length)\<close>; \<open>len\<close> is the length of the
  payload. No branch of the final \<^verbatim>\<open>if\<close> chain is taken for any other flags byte, and
  \<^verbatim>\<open>self.name\<close> is then never assigned.
\<close>

definition NM_init :: "string \<Rightarrow> nat \<Rightarrow> int \<Rightarrow> error + (susp_entry \<times> nat)" where
  "NM_init buff cur len =
     bind (susp_assert (1 \<le> len)) (\<lambda>_.
     bind (unpack_B buff cur) (\<lambda>(flags, cur1).
     bind (unpack_raw buff cur1 (len - 1)) (\<lambda>(name_content, cur2).
       if flags = NM_CURRENT then
         bind (susp_assert (len = 1)) (\<lambda>_. Inr (NM flags (Some ''.''), cur2))
       else if flags = NM_PARENT then
         bind (susp_assert (len = 1)) (\<lambda>_. Inr (NM flags (Some ''..''), cur2))
       else if flags = 0 \<or> flags = NM_CONTINUE then
         bind (susp_assert (1 < len)) (\<lambda>_. Inr (NM flags (Some name_content), cur2))
       else Inr (NM flags None, cur2))))"

definition SL_CONTINUE :: int where "SL_CONTINUE = 1"
definition SL_CURRENT :: int where "SL_CURRENT = 2"
definition SL_PARENT :: int where "SL_PARENT = 4"
definition SL_ROOT :: int where "SL_ROOT = 8"

text \<open>
  One component of an \<^verbatim>\<open>SL\<close>, after its flags, length and content were read: the text it
  adds to the path (the first \<^verbatim>\<open>if\<close> chain of the loop body).
\<close>

definition SL_component :: "int \<Rightarrow> int \<Rightarrow> string \<Rightarrow> string \<Rightarrow> error + string" where
  "SL_component comp_flags comp_len comp_content path =
     (if comp_flags = SL_CURRENT then
        bind (susp_assert (comp_len = 0)) (\<lambda>_. Inr (path @ ''.''))
      else if comp_flags = SL_PARENT then
        bind (susp_assert (comp_len = 0)) (\<lambda>_. Inr (path @ ''..''))
      else if comp_flags = SL_ROOT then
        bind (susp_assert (comp_len = 0)) (\<lambda>_. Inr path)
      else if comp_flags = 0 \<or> comp_flags = SL_CONTINUE then
        bind (susp_assert (0 < comp_len)) (\<lambda>_. Inr (path @ comp_content))
      else Inl SUSPError)"

text \<open>The \<^verbatim>\<open>/\<close> after a component (the second \<^verbatim>\<open>if\<close> chain of the loop body).\<close>

definition SL_separator :: "int \<Rightarrow> int \<Rightarrow> nat \<Rightarrow> int \<Rightarrow> string \<Rightarrow> string" where
  "SL_separator flags comp_flags cur target path =
     (if comp_flags = SL_CONTINUE then path
      else if comp_flags = 0 \<and> int cur = target \<and> flags AND SL_CONTINUE = 0 then path
      else path @ ''/'')"

text \<open>\<^verbatim>\<open>while source.cursor < target\<close>: the loop over the components.\<close>

function SL_loop :: "string \<Rightarrow> int \<Rightarrow> int \<Rightarrow> nat \<Rightarrow> string \<Rightarrow> error + (string \<times> nat)" where
  "SL_loop buff target flags cur path =
     (if int cur < target then
        (case unpack_B buff cur of Inl e \<Rightarrow> Inl e | Inr (comp_flags, cur1) \<Rightarrow>
        (case unpack_B buff cur1 of Inl e \<Rightarrow> Inl e | Inr (comp_len, cur2) \<Rightarrow>
        (case unpack_raw buff cur2 comp_len of Inl e \<Rightarrow> Inl e | Inr (comp_content, cur3) \<Rightarrow>
        (case susp_assert (int cur3 \<le> target) of Inl e \<Rightarrow> Inl e | Inr _ \<Rightarrow>
        (case SL_component comp_flags comp_len comp_content path of Inl e \<Rightarrow> Inl e | Inr path' \<Rightarrow>
           SL_loop buff target flags cur3 (SL_separator flags comp_flags cur3 target path'))))))
      else Inr (path, cur))"
  by pat_completeness auto
termination
proof (relation "measure (\<lambda>(buff, target, flags, cur, path). nat (target - int cur))")
  show "wf (measure (\<lambda>(buff, target, flags, cur, path). nat (target - int cur)))"
    by simp
next
  fix buff :: string and target flags :: int and cur :: nat and path :: string
  fix x2 comp_flags cur1 x2a comp_len cur2 x2b comp_content cur3 x2c path'
  assume "int cur < target"
    and "unpack_B buff cur = Inr x2" and "(comp_flags, cur1) = x2"
    and "unpack_B buff cur1 = Inr x2a" and "(comp_len, cur2) = x2a"
    and "unpack_raw buff cur2 comp_len = Inr x2b" and "(comp_content, cur3) = x2b"
  then have "cur1 = cur + 1" "cur2 = cur1 + 1" "cur2 \<le> cur3"
    using unpack1_cursor [of buff cur LittleEndian FB comp_flags cur1]
      unpack1_cursor [of buff cur1 LittleEndian FB comp_len cur2]
      unpack_raw_cursor [of buff cur2 comp_len comp_content cur3]
    by auto
  with \<open>int cur < target\<close>
  show "((buff, target, flags, cur3, SL_separator flags comp_flags cur3 target path'),
         (buff, target, flags, cur, path))
        \<in> measure (\<lambda>(buff, target, flags, cur, path). nat (target - int cur))"
    by simp
qed

text \<open>
  \<^verbatim>\<open>SL.__init__(source, ext_id_ver, sig_version, length)\<close>; \<open>len\<close> is the length of the
  payload.
\<close>

definition SL_init :: "string \<Rightarrow> nat \<Rightarrow> int \<Rightarrow> error + (susp_entry \<times> nat)" where
  "SL_init buff cur len =
     bind (susp_assert (2 \<le> len)) (\<lambda>_.
     let target = int cur + len in
     bind (unpack_B buff cur) (\<lambda>(flags, cur1).
     bind (SL_loop buff target flags cur1 []) (\<lambda>(path, cur2).
       Inr (SL flags path, cur2))))"

declare SL_loop.simps [simp del]

subsection \<open>The path of an SL, stated on its components\<close>

text \<open>
  A component is its flags byte and its content. \<open>encode_components\<close> is the on-disc
  form the loop of \<^verbatim>\<open>SL.__init__\<close> reads: flags, length, content. A well-formed
  component is one the loop accepts: \<open>CURRENT\<close>, \<open>PARENT\<close> and \<open>ROOT\<close> carry no
  content, a component with flags 0 or \<open>CONTINUE\<close> carries some.
\<close>

type_synonym component = "int \<times> string"

definition wf_component :: "component \<Rightarrow> bool" where
  "wf_component c =
     (case c of (cf, content) \<Rightarrow>
        length content < 256 \<and>
        (if cf = SL_CURRENT \<or> cf = SL_PARENT \<or> cf = SL_ROOT then content = []
         else (cf = 0 \<or> cf = SL_CONTINUE) \<and> content \<noteq> []))"

fun encode_components :: "component list \<Rightarrow> string" where
  "encode_components [] = []"
| "encode_components ((cf, content) # cs) =
     char_of cf # char_of (int (length content)) # content @ encode_components cs"

definition component_text :: "component \<Rightarrow> string" where
  "component_text c =
     (case c of (cf, content) \<Rightarrow>
        if cf = SL_CURRENT then ''.'' else if cf = SL_PARENT then ''..''
        else if cf = SL_ROOT then [] else content)"

text \<open>
  The path as the code builds it: the text of each component, and a \<open>/\<close> after it unless
  its flags are \<open>CONTINUE\<close>, or its flags are 0 and it is the last component of an
  \<^verbatim>\<open>SL\<close> whose own \<open>CONTINUE\<close> bit is clear.
\<close>

fun sl_path_spec :: "int \<Rightarrow> component list \<Rightarrow> string" where
  "sl_path_spec flags [] = []"
| "sl_path_spec flags (c # cs) =
     component_text c
     @ (if fst c = SL_CONTINUE \<or> (fst c = 0 \<and> cs = [] \<and> flags AND SL_CONTINUE = 0) then [] else ''/'')
     @ sl_path_spec flags cs"

text \<open>
  The path as the specification words it: a \<open>/\<close> after each component unless the
  component carries \<open>CONTINUE\<close> or it is the final component of the final \<^verbatim>\<open>SL\<close>.
\<close>

fun sl_path_claimed :: "int \<Rightarrow> component list \<Rightarrow> string" where
  "sl_path_claimed flags [] = []"
| "sl_path_claimed flags (c # cs) =
     component_text c
     @ (if fst c AND SL_CONTINUE \<noteq> 0 \<or> (cs = [] \<and> flags AND SL_CONTINUE = 0) then [] else ''/'')
     @ sl_path_claimed flags cs"

subsection \<open>The remaining Rock Ridge entries\<close>

text \<open>
  \<^verbatim>\<open>unpack_smart(st)\<close> for a format of \<open>n\<close> codes \<^verbatim>\<open>I\<close>, consumed whole by a tuple
  assignment: \<open>8 * n\<close> bytes are read at once and decoded both ways, and each value is the
  little-endian one of its pair once it equals the big-endian one.
\<close>

fun both_values :: "int list \<Rightarrow> int list \<Rightarrow> error + int list" where
  "both_values (a # _ # le) (_ # b # be) =
     (if a \<noteq> b then Inl (SourceError ''Both-endian value mismatch'')
      else bind (both_values le be) (\<lambda>vs. Inr (a # vs)))"
| "both_values _ _ = Inr []"

definition unpack_smart_I :: "string \<Rightarrow> nat \<Rightarrow> nat \<Rightarrow> error + (int list \<times> nat)" where
  "unpack_smart_I buff cur n =
     bind (unpack_both' buff cur (replicate (2 * n) FI)) (\<lambda>((le, be), cur').
       bind (both_values le be) (\<lambda>vs. Inr (vs, cur')))"

definition RR_init :: "string \<Rightarrow> nat \<Rightarrow> int \<Rightarrow> error + (susp_entry \<times> nat)" where
  "RR_init buff cur len =
     bind (susp_assert (len = 1)) (\<lambda>_.
     bind (unpack_B buff cur) (\<lambda>(flags, cur1). Inr (RR flags, cur1)))"

definition PX_init :: "string \<Rightarrow> nat \<Rightarrow> int \<Rightarrow> error + (susp_entry \<times> nat)" where
  "PX_init buff cur len =
     (if len = 32 then bind (unpack_smart_I buff cur 4) (\<lambda>(vs, cur1). Inr (PX vs, cur1))
      else if len = 40 then bind (unpack_smart_I buff cur 5) (\<lambda>(vs, cur1). Inr (PX vs, cur1))
      else Inr (PX [], cur))"

definition PN_init :: "string \<Rightarrow> nat \<Rightarrow> int \<Rightarrow> error + (susp_entry \<times> nat)" where
  "PN_init buff cur len =
     bind (susp_assert (len = 16)) (\<lambda>_.
     bind (unpack_both buff cur FI) (\<lambda>(dev_high, cur1).
     bind (unpack_both buff cur1 FI) (\<lambda>(dev_low, cur2). Inr (PN dev_high dev_low, cur2))))"

text \<open>
  \<^verbatim>\<open>TF.__init__\<close> captures the bytes of each timestamp its flags select, 17 in the long
  form and 7 in the short one; the conversion to a datetime is deferred to the first
  access and is no part of the constructor.
\<close>

fun TF_stamps :: "string \<Rightarrow> nat \<Rightarrow> int \<Rightarrow> int list \<Rightarrow> error + (string list \<times> nat)" where
  "TF_stamps buff cur flags [] = Inr ([], cur)"
| "TF_stamps buff cur flags (b # bits) =
     (if flags AND b \<noteq> 0 then
        bind (unpack_raw buff cur (if flags AND 128 \<noteq> 0 then 17 else 7)) (\<lambda>(raw, cur1).
        bind (TF_stamps buff cur1 flags bits) (\<lambda>(raws, cur2). Inr (raw # raws, cur2)))
      else TF_stamps buff cur flags bits)"

definition TF_init :: "string \<Rightarrow> nat \<Rightarrow> int \<Rightarrow> error + (susp_entry \<times> nat)" where
  "TF_init buff cur len =
     bind (susp_assert (1 \<le> len)) (\<lambda>_.
     bind (unpack_B buff cur) (\<lambda>(flags, cur1).
     bind (TF_stamps buff cur1 flags [1, 2, 4, 8, 16, 32, 64]) (\<lambda>(raws, cur2).
       Inr (TF flags raws, cur2))))"

subsection \<open>susp.py, which is not among the sources\<close>

text \<open>
  Modelled from the spec: \<^verbatim>\<open>susp.UnknownEntry\<close>, the entry of "any signature/version
  not implemented, bytes preserved verbatim". Its constructor reads the payload with
  \<^verbatim>\<open>unpack_raw\<close> and keeps it.
\<close>

definition UnknownEntry_init ::
  "string \<Rightarrow> nat \<Rightarrow> string \<Rightarrow> int \<Rightarrow> int \<Rightarrow> error + (susp_entry \<times> nat)" where
  "UnknownEntry_init buff cur signature version len =
     bind (unpack_raw buff cur len) (\<lambda>(raw, cur'). Inr (UnknownEntry signature version raw, cur'))"

text \<open>
  Modelled from the spec: the constructors of the base entries \<^verbatim>\<open>SP\<close> (carries
  \<^verbatim>\<open>len_skp\<close>), \<^verbatim>\<open>CE\<close> (\<^verbatim>\<open>location\<close>, \<^verbatim>\<open>offset\<close>, \<^verbatim>\<open>length\<close>), \<^verbatim>\<open>ST\<close> and \<^verbatim>\<open>ER\<close>
  (\<^verbatim>\<open>ext_id\<close>, \<^verbatim>\<open>ext_ver\<close>, descriptive fields), missing with \<^verbatim>\<open>susp.py\<close>. The spec
  names the fields; the byte layout is the one of the SUSP entry framing it refers to: two
  check bytes and \<^verbatim>\<open>len_skp\<close> for \<^verbatim>\<open>SP\<close>, three both-endian 32-bit fields for \<^verbatim>\<open>CE\<close>,
  an empty payload for \<^verbatim>\<open>ST\<close>, and for \<^verbatim>\<open>ER\<close> the lengths of the identifier, the
  descriptor and the source, the version, and the three strings.
\<close>

definition SP_init :: "string \<Rightarrow> nat \<Rightarrow> int \<Rightarrow> error + (susp_entry \<times> nat)" where
  "SP_init buff cur len =
     bind (susp_assert (len = 3)) (\<lambda>_.
     bind (unpack_raw buff cur 2) (\<lambda>(check, cur1).
     bind (unpack_B buff cur1) (\<lambda>(skp, cur2). Inr (SP skp, cur2))))"

definition CE_init :: "string \<Rightarrow> nat \<Rightarrow> int \<Rightarrow> error + (susp_entry \<times> nat)" where
  "CE_init buff cur len =
     bind (susp_assert (len = 24)) (\<lambda>_.
     bind (unpack_both buff cur FI) (\<lambda>(location, cur1).
     bind (unpack_both buff cur1 FI) (\<lambda>(offset, cur2).
     bind (unpack_both buff cur2 FI) (\<lambda>(length, cur3). Inr (CE location offset length, cur3)))))"

definition ST_init :: "string \<Rightarrow> nat \<Rightarrow> int \<Rightarrow> error + (susp_entry \<times> nat)" where
  "ST_init buff cur len = bind (susp_assert (len = 0)) (\<lambda>_. Inr (ST, cur))"

definition ER_init :: "string \<Rightarrow> nat \<Rightarrow> int \<Rightarrow> error + (susp_entry \<times> nat)" where
  "ER_init buff cur len =
     bind (susp_assert (4 \<le> len)) (\<lambda>_.
     bind (unpack buff cur LittleEndian [FB, FB, FB, FB]) (\<lambda>(t, cur1).
     bind (unpack_raw buff cur1 (t ! 0)) (\<lambda>(ident, cur2).
     bind (unpack_raw buff cur2 (t ! 1)) (\<lambda>(des, cur3).
     bind (unpack_raw buff cur3 (t ! 2)) (\<lambda>(src, cur4). Inr (ER ident (t ! 3), cur4))))))"

text \<open>
  What \<^verbatim>\<open>unpack_susp\<close> asks of \<^verbatim>\<open>susp.SUSP_Entry.unpack(source, ext_id_ver, (signature,
  version), length)\<close>: given the extension in scope, the signature, the version and the
  length of the payload, and the buffer with the cursor at the payload, the entry built
  and the number of bytes its constructor read, or the exception raised. The source's
  entry constructors only read from the source; that they never seek or rewind is what
  the type says. Every definition below takes such a decoder as its first argument, so what is
  proved of them holds for whatever \<^verbatim>\<open>susp.py\<close> holds.
\<close>

type_synonym ext = "string \<times> int"

type_synonym decoder =
  "ext option \<Rightarrow> string \<Rightarrow> int \<Rightarrow> int \<Rightarrow> string \<Rightarrow> nat \<Rightarrow> error + (susp_entry \<times> nat)"

text \<open>
  Modelled from the spec: \<^verbatim>\<open>susp.SUSP_Entry.unpack\<close>, the registry of section 4.E. An
  entry class is registered under the tuples \<open>(ext_id, ext_ver, signature, version)\<close> of its
  \<^verbatim>\<open>_implements\<close>; \<^verbatim>\<open>SP\<close>, \<^verbatim>\<open>CE\<close>, \<^verbatim>\<open>ST\<close> and \<^verbatim>\<open>ER\<close> belong to the base protocol and
  match whatever the extension; a signature and version nobody implements gives an
  \<^verbatim>\<open>UnknownEntry\<close>. The Rock Ridge rows are the \<^verbatim>\<open>_implements\<close> lists of
  \<^verbatim>\<open>rockridge.py\<close>: \<^verbatim>\<open>RR\<close> under \<open>RRIP_109\<close> only, the others under both versions.
\<close>

definition SUSP_Entry_unpack :: decoder where
  "SUSP_Entry_unpack ext_id_ver signature version len buff cur =
     bind
       (if version = 1 \<and> signature = ''SP'' then SP_init buff cur len
        else if version = 1 \<and> signature = ''CE'' then CE_init buff cur len
        else if version = 1 \<and> signature = ''ST'' then ST_init buff cur len
        else if version = 1 \<and> signature = ''ER'' then ER_init buff cur len
        else if version = 1 \<and> ext_id_ver = Some RRIP_109 \<and> signature = ''RR'' then RR_init buff cur len
        else if version = 1 \<and> ext_id_ver \<in> {Some RRIP_109, Some RRIP_112} then
          (if signature = ''PX'' then PX_init buff cur len
           else if signature = ''PN'' then PN_init buff cur len
           else if signature = ''SL'' then SL_init buff cur len
           else if signature = ''NM'' then NM_init buff cur len
           else if signature = ''TF'' then TF_init buff cur len
           else UnknownEntry_init buff cur signature version len)
        else UnknownEntry_init buff cur signature version len)
       (\<lambda>(entry, cur'). Inr (entry, cur' - cur))"

subsection \<open>Source.unpack_susp\<close>

text \<open>
  \<^verbatim>\<open>unpack_susp(maxlen, possible_extension=0)\<close>, with \<^verbatim>\<open>self.susp_extensions\<close> as the list
  of the \<open>(ext_id, ext_ver)\<close> of its \<^verbatim>\<open>ER\<close> entries. The local \<^verbatim>\<open>new_susp\<close> is an option:
  it is unbound until the \<^verbatim>\<open>try\<close> or the fallback assigns it, and \<^verbatim>\<open>return new_susp\<close>
  raises \<open>UnboundLocalError\<close> when neither did. \<open>Inr (None, _)\<close> is the return of
  \<^verbatim>\<open>None\<close>.
\<close>

definition unpack_susp ::
  "decoder \<Rightarrow> ext list \<Rightarrow> nat \<Rightarrow> string \<Rightarrow> nat \<Rightarrow> int \<Rightarrow> error + (susp_entry option \<times> nat)" where
  "unpack_susp dec susp_extensions possible_extension buff cur maxlen =
     (if maxlen < 4 then Inr (None, cur)
      else
        let start_cursor = cur in
        bind (unpack_2sBB buff cur) (\<lambda>((signature, len, version), cur1).
          if maxlen < len then bind (rewind_raw cur1 4) (\<lambda>cur2. Inr (None, cur2))
          else
            let ext_id_ver =
              (if possible_extension < length susp_extensions
               then Some (susp_extensions ! possible_extension) else None) in
            bind (case dec ext_id_ver signature version (len - 4) buff cur1 of
                    Inr (entry, n) \<Rightarrow> Inr (Some entry, cur1 + n)
                  | Inl e \<Rightarrow> if e = SUSPError then Inr (None, start_cursor) else Inl e)
              (\<lambda>(new_susp, cur2).
            bind (if int cur2 \<noteq> int start_cursor + len then
                    bind (UnknownEntry_init buff (start_cursor + 4) signature version (len - 4))
                      (\<lambda>(entry, cur3). Inr (Some entry, cur3))
                  else Inr (new_susp, cur2))
              (\<lambda>(new_susp, cur3).
            if int cur3 \<noteq> int start_cursor + len then Inl AssertionError
            else case new_susp of
                   None \<Rightarrow> Inl UnboundLocalError
                 | Some entry \<Rightarrow> Inr (Some entry, cur3)))))"

lemma unpack_2sBB_cursor:
  "unpack_2sBB buff cur = Inr (h, cur') \<Longrightarrow> cur' = cur + 4"
  by (auto simp: unpack_2sBB_def unpack_raw_nonneg bind_eq_Inr split: if_splits)

lemma unpack_susp_progress:
  assumes "unpack_susp dec exts pe buff cur maxlen = Inr (Some entry, cur')"
  shows "cur + 4 \<le> cur' \<and> int cur' \<le> int cur + maxlen"
proof -
  from assms have m: "\<not> maxlen < 4"
    by (auto simp: unpack_susp_def)
  from assms m obtain signature len version cur1 where
    h: "unpack_2sBB buff cur = Inr ((signature, len, version), cur1)"
    by (auto simp: unpack_susp_def bind_eq_Inr)
  then have c1: "cur1 = cur + 4" by (rule unpack_2sBB_cursor)
  from assms m h have l: "\<not> maxlen < len"
    by (auto simp: unpack_susp_def Let_def bind_eq_Inr)
  from assms m h l have e: "int cur' = int cur + len"
    by (auto simp: unpack_susp_def Let_def bind_eq_Inr split: if_splits option.splits)
  have "cur + 4 \<le> cur'"
  proof (rule ccontr)
    assume "\<not> cur + 4 \<le> cur'"
    with e have small: "len < 4" by linarith
    from assms m h l obtain new_susp cur2 where
      d: "(case dec (if pe < length exts then Some (exts ! pe) else None) signature version
             (len - 4) buff cur1 of
            Inr (entry, n) \<Rightarrow> Inr (Some entry, cur1 + n)
          | Inl e \<Rightarrow> if e = SUSPError then Inr (None, cur) else Inl e) = Inr (new_susp, cur2)"
      and r: "bind (if int cur2 \<noteq> int cur + len then
                    bind (UnknownEntry_init buff (cur + 4) signature version (len - 4))
                      (\<lambda>(entry, cur3). Inr (Some entry, cur3))
                  else Inr (new_susp, cur2))
              (\<lambda>(new_susp, cur3).
            if int cur3 \<noteq> int cur + len then Inl AssertionError
            else case new_susp of
                   None \<Rightarrow> Inl UnboundLocalError
                 | Some entry \<Rightarrow> Inr (Some entry, cur3)) = Inr (Some entry, cur')"
      by (auto simp: unpack_susp_def Let_def bind_eq_Inr)
    show False
    proof (cases "int cur2 \<noteq> int cur + len")
      case True
      with r obtain u cur3 where
        u: "UnknownEntry_init buff (cur + 4) signature version (len - 4) = Inr (u, cur3)"
        and c3: "int cur3 = int cur + len"
        by (auto simp: bind_eq_Inr split: if_splits)
      from u have "cur + 4 \<le> cur3"
        by (auto simp: UnknownEntry_init_def bind_eq_Inr dest: unpack_raw_cursor)
      with c3 small show False by linarith
    next
      case False
      with r have n: "new_susp = Some entry" and c2: "int cur2 = int cur + len"
        by (auto split: if_splits option.splits)
      from d n c1 have "cur + 4 \<le> cur2"
        by (auto split: sum.splits if_splits)
      with c2 small show False by linarith
    qed
  qed
  with e l show ?thesis by linarith
qed

section \<open>record.py: directory records\<close>

text \<open>
  \<^verbatim>\<open>susp_starting_index\<close> is \<^verbatim>\<open>None\<close> until the root directory was inspected, then
  \<^verbatim>\<open>False\<close> (SUSP disabled) or an integer; \<^verbatim>\<open>_last_cached_child\<close> is \<^verbatim>\<open>None\<close>, then a
  cursor, then \<^verbatim>\<open>False\<close> once a scan reached the end of the directory. The code tells
  \<^verbatim>\<open>False\<close> from the rest with \<^verbatim>\<open>is not False\<close> and then tests the truth value, which is
  false for \<^verbatim>\<open>None\<close> and for 0.
\<close>

datatype py_index = PyNone | PyFalse | PyInt int

fun truthy :: "py_index \<Rightarrow> bool" where
  "truthy PyNone = False"
| "truthy PyFalse = False"
| "truthy (PyInt n) = (n \<noteq> 0)"

text \<open>
  A \<^verbatim>\<open>Record\<close> object. \<open>length_r\<close> is the attribute \<^verbatim>\<open>length\<close>; \<open>p_content\<close>,
  \<open>p_child_cache\<close> and \<open>p_last_cached_child\<close> are the private \<^verbatim>\<open>_content\<close>,
  \<^verbatim>\<open>_child_cache\<close> and \<^verbatim>\<open>_last_cached_child\<close>. The child cache maps a name to the
  address of a record object in the store (see below). \<^verbatim>\<open>is_hidden\<close> and
  \<^verbatim>\<open>is_directory\<close> are the masked flag bits, integers as in the source.
\<close>

record Record =
  location :: int
  length_r :: int
  datetime_r :: datetime
  is_hidden :: int
  is_directory :: int
  raw_name :: string
  embedded_susp_entries :: "susp_entry list"
  p_content :: "string option"
  p_child_cache :: "string \<rightharpoonup> nat"
  p_last_cached_child :: py_index

text \<open>
  Lines 44 to 51 of \<^verbatim>\<open>Record.__init__\<close>: entries are decoded and appended until
  \<^verbatim>\<open>unpack_susp\<close> returns none or an \<^verbatim>\<open>ST\<close> was appended. Each entry returned moves the
  cursor forward within the record, which is why the loop ends.
\<close>

function susp_loop ::
  "decoder \<Rightarrow> ext list \<Rightarrow> string \<Rightarrow> int \<Rightarrow> nat \<Rightarrow> susp_entry list
    \<Rightarrow> error + (susp_entry list \<times> nat)" where
  "susp_loop dec exts buff target cur susp_entries =
     (case unpack_susp dec exts 0 buff cur (target - int cur) of
        Inl e \<Rightarrow> Inl e
      | Inr (None, cur') \<Rightarrow> Inr (susp_entries, cur')
      | Inr (Some try_susp, cur') \<Rightarrow>
          if is_ST try_susp then Inr (susp_entries @ [try_susp], cur')
          else susp_loop dec exts buff target cur' (susp_entries @ [try_susp]))"
  by pat_completeness auto
termination
proof (relation "measure (\<lambda>(dec, exts, buff, target, cur, susp_entries). nat (target - int cur))")
  show "wf (measure (\<lambda>(dec, exts, buff, target, cur, susp_entries). nat (target - int cur)))"
    by simp
next
  fix dec :: decoder and exts :: "ext list" and buff :: string and target :: int
    and cur :: nat and susp_entries :: "susp_entry list"
    and r :: "susp_entry option \<times> nat" and res :: "susp_entry option" and cur' :: nat
    and try_susp :: susp_entry
  assume "unpack_susp dec exts 0 buff cur (target - int cur) = Inr r" and "(res, cur') = r"
    and "res = Some try_susp"
  then have "unpack_susp dec exts 0 buff cur (target - int cur) = Inr (Some try_susp, cur')"
    by simp
  from unpack_susp_progress [OF this]
  show "((dec, exts, buff, target, cur', susp_entries @ [try_susp]),
         (dec, exts, buff, target, cur, susp_entries))
        \<in> measure (\<lambda>(dec, exts, buff, target, cur, susp_entries). nat (target - int cur))"
    by simp
qed

declare susp_loop.simps [simp del]

text \<open>
  The system-use area, lines 33 to 53. With an unknown starting index one entry is
  decoded on trial: an \<^verbatim>\<open>SP\<close> is kept, and a \<^verbatim>\<open>len_skp\<close> above 7 leaves the rest of the
  skip, \<^verbatim>\<open>len_skp - 7\<close>, for this record; an entry that is no \<^verbatim>\<open>SP\<close> was read and is
  not kept. Unless the index is \<^verbatim>\<open>False\<close>, a non-zero index is skipped with
  \<^verbatim>\<open>unpack_raw\<close> and the entries are decoded behind it.
\<close>

definition system_use ::
  "decoder \<Rightarrow> ext list \<Rightarrow> string \<Rightarrow> int \<Rightarrow> nat \<Rightarrow> py_index
    \<Rightarrow> error + (susp_entry list \<times> nat)" where
  "system_use dec exts buff target cur susp_starting_index =
     bind (if susp_starting_index = PyNone then
             bind (unpack_susp dec exts 0 buff cur (target - int cur)) (\<lambda>(try_susp, cur1).
               case try_susp of
                 Some (SP skp) \<Rightarrow>
                   Inr ([SP skp], if 7 < skp then PyInt (skp - 7) else PyNone, cur1)
               | _ \<Rightarrow> Inr ([], PyNone, cur1))
           else Inr ([], susp_starting_index, cur))
       (\<lambda>(susp_entries, susp_starting_index, cur1).
          if susp_starting_index \<noteq> PyFalse then
            bind (if truthy susp_starting_index then
                    bind (unpack_raw buff cur1 (case susp_starting_index of PyInt n \<Rightarrow> n | _ \<Rightarrow> 0))
                      (\<lambda>(_, cur2). Inr cur2)
                  else Inr cur1)
              (\<lambda>cur2. susp_loop dec exts buff target cur2 susp_entries)
          else Inr (susp_entries, cur1))"

text \<open>\<^verbatim>\<open>s.split(';')[0]\<close>: the part before the first semicolon.\<close>

definition split_version :: "string \<Rightarrow> string" where
  "split_version s = takeWhile (\<lambda>c. c \<noteq> CHR '';'') s"

text \<open>
  The fixed fields and the name, lines 14 to 30: what they yield is the location, the
  length, the datetime, the flags byte and the raw name.
\<close>

definition record_fields ::
  "string \<Rightarrow> nat \<Rightarrow> error + ((int \<times> int \<times> datetime \<times> int \<times> string) \<times> nat)" where
  "record_fields buff cur =
     bind (unpack_B buff cur) (\<lambda>(_, cur1).
     bind (unpack_both buff cur1 FI) (\<lambda>(location, cur2).
     bind (unpack_both buff cur2 FI) (\<lambda>(length, cur3).
     bind (unpack_dir_datetime buff cur3) (\<lambda>(datetime, cur4).
     bind (unpack_B buff cur4) (\<lambda>(flags, cur5).
     bind (unpack_B buff cur5) (\<lambda>(_, cur6).
     bind (unpack_B buff cur6) (\<lambda>(_, cur7).
     bind (unpack_both buff cur7 Fh) (\<lambda>(_, cur8).
     bind (unpack_B buff cur8) (\<lambda>(name_length, cur9).
     bind (unpack_string buff cur9 name_length) (\<lambda>(s, cur10).
     let raw_name = split_version s;
         raw_name = (if raw_name = [CHR 0x00] then [] else raw_name) in
     bind (if name_length mod 2 = 0 then bind (unpack_raw buff cur10 1) (\<lambda>(_, c). Inr c)
           else Inr cur10) (\<lambda>cur11.
       Inr ((location, length, datetime, flags, raw_name), cur11))))))))))))"

text \<open>
  \<^verbatim>\<open>Record.__init__(source, length, susp_starting_index)\<close>; the decoder and the extensions
  are those of the source, which \<^verbatim>\<open>unpack_susp\<close> reads.
\<close>

definition Record_init ::
  "decoder \<Rightarrow> ext list \<Rightarrow> string \<Rightarrow> nat \<Rightarrow> int \<Rightarrow> py_index \<Rightarrow> error + (Record \<times> nat)" where
  "Record_init dec exts buff cur len susp_starting_index =
     (let target = int cur + len in
      bind (record_fields buff cur) (\<lambda>((location, length, datetime, flags, raw_name), cur1).
      bind (system_use dec exts buff target cur1 susp_starting_index) (\<lambda>(susp_entries, cur2).
      if \<not> int cur2 \<le> target then Inl AssertionError
      else
        bind (unpack_raw buff cur2 (target - int cur2)) (\<lambda>(_, cur3).
          Inr (\<lparr>location = location, length_r = length, datetime_r = datetime,
                is_hidden = flags AND 1, is_directory = flags AND 2, raw_name = raw_name,
                embedded_susp_entries = susp_entries, p_content = None,
                p_child_cache = Map.empty, p_last_cached_child = PyNone\<rparr>, cur3)))))"

section \<open>source.py: the source object\<close>

text \<open>
  The state of a \<^verbatim>\<open>Source\<close>: the working buffer with its cursor and its declared length
  \<^verbatim>\<open>_len\<close>, the three SUSP settings, and the image behind it. \<open>disc\<close> stands for the
  backend and the sector cache together: the bytes of the image, sector after sector. The
  cache decides which sectors \<^verbatim>\<open>seek\<close> fetches and never which bytes it assembles, and so
  a seek leaves \<open>disc\<close> as it is.
\<close>

record Source =
  p_buff :: string
  p_len :: int
  cursor :: nat
  susp_starting_index :: py_index
  susp_extensions :: "ext list"
  rockridge :: bool
  disc :: string

text \<open>
  \<^verbatim>\<open>seek(start_sector, length)\<close>: the buffer becomes the sectors from \<open>start_sector\<close> on,
  truncated to \<open>len\<close> bytes (fewer when the image ends before), \<^verbatim>\<open>_len\<close> becomes
  \<open>len\<close> and the cursor 0.
\<close>

definition seek :: "Source \<Rightarrow> int \<Rightarrow> int \<Rightarrow> Source" where
  "seek src start_sector len =
     src\<lparr>p_buff := take (nat len) (drop (SECTOR_LENGTH * nat start_sector) (disc src)),
         p_len := len, cursor := 0\<rparr>"

text \<open>
  \<^verbatim>\<open>save_cursor\<close> returns the buffer object and \<^verbatim>\<open>_len\<close>; the cursor is the position of
  that object and comes back with it. Between the two calls in \<^verbatim>\<open>find_child\<close> the saved
  object is not read: the walk of \<^verbatim>\<open>name\<close> reads the source only after a \<^verbatim>\<open>seek\<close>, and
  \<^verbatim>\<open>seek\<close> makes a new buffer object.
\<close>

definition save_cursor :: "Source \<Rightarrow> string \<times> nat \<times> int" where
  "save_cursor src = (p_buff src, cursor src, p_len src)"

definition restore_cursor :: "Source \<Rightarrow> string \<times> nat \<times> int \<Rightarrow> Source" where
  "restore_cursor src cursor_def =
     (case cursor_def of (b, c, l) \<Rightarrow> src\<lparr>p_buff := b, cursor := c, p_len := l\<rparr>)"

text \<open>\<^verbatim>\<open>unpack_record()\<close>; \<open>Inr (None, _)\<close> is the return of \<^verbatim>\<open>None\<close> for a length byte 0.\<close>

definition unpack_record :: "decoder \<Rightarrow> Source \<Rightarrow> error + (Record option \<times> Source)" where
  "unpack_record dec src =
     (let start_cursor = cursor src in
      bind (unpack_B (p_buff src) (cursor src)) (\<lambda>(length, cur1).
        if length = 0 then
          bind (rewind_raw cur1 1) (\<lambda>cur2. Inr (None, src\<lparr>cursor := cur2\<rparr>))
        else
          bind (Record_init dec (susp_extensions src) (p_buff src) cur1 (length - 1)
                  (susp_starting_index src)) (\<lambda>(new_record, cur2).
            if int cur2 \<noteq> int start_cursor + length then Inl AssertionError
            else Inr (Some new_record, src\<lparr>cursor := cur2\<rparr>))))"

section \<open>record.py: the walk over the SUSP entries of a record\<close>

text \<open>
  The three locals of the generator \<^verbatim>\<open>susp_entries_unsafe\<close>. \<open>embedded_iter\<close> is the
  iterator over the embedded entries, or \<^verbatim>\<open>None\<close> once it was dropped; an iterator object
  is true even when nothing is left in it. \<open>target\<close> is an integer or \<^verbatim>\<open>None\<close>, and 0
  counts as false. \<open>ce_entry\<close> is the pending \<^verbatim>\<open>CE\<close>, or \<^verbatim>\<open>None\<close>.
\<close>

record walk =
  embedded_iter :: "susp_entry list option"
  target :: "int option"
  ce_entry :: "susp_entry option"

definition walk_init :: "Record \<Rightarrow> walk" where
  "walk_init r = \<lparr>embedded_iter = Some (embedded_susp_entries r), target = None, ce_entry = None\<rparr>"

text \<open>
  One pass through the body of the \<^verbatim>\<open>while\<close> loop ends in one of three ways: the loop
  condition is false and the generator is exhausted, a \<^verbatim>\<open>continue\<close> was reached, or an
  entry is yielded. The code behind the \<^verbatim>\<open>yield\<close> only assigns locals; it is folded into
  the state with which the walk resumes.
\<close>

datatype step = Stop | Continue Source walk | Yield susp_entry Source walk

definition after_yield :: "susp_entry \<Rightarrow> walk \<Rightarrow> walk" where
  "after_yield entry w =
     (if is_ST entry then w\<lparr>embedded_iter := None, target := None\<rparr>
      else if is_CE entry then w\<lparr>ce_entry := Some entry\<rparr>
      else w)"

definition walk_step :: "decoder \<Rightarrow> Source \<Rightarrow> walk \<Rightarrow> error + step" where
  "walk_step dec src w =
     (if embedded_iter w = None \<and> (target w = None \<or> target w = Some 0) \<and> ce_entry w = None
      then Inr Stop
      else
        case embedded_iter w of
          Some [] \<Rightarrow> Inr (Continue src (w\<lparr>embedded_iter := None\<rparr>))
        | Some (entry # rest) \<Rightarrow>
            Inr (Yield entry src (after_yield entry (w\<lparr>embedded_iter := Some rest\<rparr>)))
        | None \<Rightarrow>
            if target w \<noteq> None \<and> target w \<noteq> Some 0 then
              bind (unpack_susp dec (susp_extensions src) 0 (p_buff src) (cursor src)
                      (the (target w) - int (cursor src))) (\<lambda>(entry, cur').
                case entry of
                  None \<Rightarrow> Inr (Continue (src\<lparr>cursor := cur'\<rparr>) (w\<lparr>target := None\<rparr>))
                | Some entry \<Rightarrow> Inr (Yield entry (src\<lparr>cursor := cur'\<rparr>) (after_yield entry w)))
            else
              case ce_entry w of
                Some (CE loc offset len) \<Rightarrow>
                  let src1 = seek src loc (offset + len) in
                  bind (unpack_raw (p_buff src1) (cursor src1) offset) (\<lambda>(_, cur').
                    Inr (Continue (src1\<lparr>cursor := cur'\<rparr>)
                           (w\<lparr>target := Some (int cur' + len), ce_entry := None\<rparr>)))
              | _ \<Rightarrow> Inl AttributeError)"

text \<open>
  Results of a computation that may not return: \<open>None\<close> when the fuel ran out, otherwise
  the exception or the value.
\<close>

definition obind :: "(error + 'a) option \<Rightarrow> ('a \<Rightarrow> (error + 'b) option) \<Rightarrow> (error + 'b) option" where
  "obind m f = (case m of None \<Rightarrow> None | Some (Inl e) \<Rightarrow> Some (Inl e) | Some (Inr x) \<Rightarrow> f x)"

lemma obind_simps [simp]:
  "obind None f = None" "obind (Some (Inl e)) f = Some (Inl e)" "obind (Some (Inr x)) f = f x"
  by (simp_all add: obind_def)

text \<open>
  \<^verbatim>\<open>susp_entries\<close>: \<^verbatim>\<open>list(self.susp_entries_unsafe)\<close>. A chain of \<^verbatim>\<open>CE\<close> entries can
  lead back into itself, so the walk need not end; the fuel bounds the passes through the
  loop. The source is returned as the walk left it.
\<close>

fun susp_entries :: "decoder \<Rightarrow> nat \<Rightarrow> Source \<Rightarrow> walk \<Rightarrow> (error + (susp_entry list \<times> Source)) option" where
  "susp_entries dec 0 src w = None"
| "susp_entries dec (Suc fuel) src w =
     (case walk_step dec src w of
        Inl e \<Rightarrow> Some (Inl e)
      | Inr Stop \<Rightarrow> Some (Inr ([], src))
      | Inr (Continue src' w') \<Rightarrow> susp_entries dec fuel src' w'
      | Inr (Yield entry src' w') \<Rightarrow>
          obind (susp_entries dec fuel src' w') (\<lambda>(entries, src''). Some (Inr (entry # entries, src''))))"

text \<open>
  The loop of the property \<^verbatim>\<open>name\<close> over the same generator. Reading \<^verbatim>\<open>entry.name\<close> of
  an \<^verbatim>\<open>NM\<close> that has no such attribute raises \<open>AttributeError\<close>. On \<^verbatim>\<open>break\<close> the
  generator is not resumed.
\<close>

fun name_loop :: "decoder \<Rightarrow> nat \<Rightarrow> Source \<Rightarrow> walk \<Rightarrow> string \<Rightarrow> (error + (string \<times> Source)) option" where
  "name_loop dec 0 src w name = None"
| "name_loop dec (Suc fuel) src w name =
     (case walk_step dec src w of
        Inl e \<Rightarrow> Some (Inl e)
      | Inr Stop \<Rightarrow> Some (Inr (name, src))
      | Inr (Continue src' w') \<Rightarrow> name_loop dec fuel src' w' name
      | Inr (Yield entry src' w') \<Rightarrow>
          if \<not> is_NM entry then name_loop dec fuel src' w' name
          else
            case nm_name entry of
              None \<Rightarrow> Some (Inl AttributeError)
            | Some s \<Rightarrow>
                if nm_flags entry AND NM_CONTINUE = 0 then Some (Inr (name @ s, src'))
                else name_loop dec fuel src' w' (name @ s))"

text \<open>\<^verbatim>\<open>Record.name\<close>: \<^verbatim>\<open>return name or self.raw_name\<close>.\<close>

definition Record_name :: "decoder \<Rightarrow> nat \<Rightarrow> Source \<Rightarrow> Record \<Rightarrow> (error + (string \<times> Source)) option" where
  "Record_name dec fuel src r =
     obind (name_loop dec fuel src (walk_init r) [])
       (\<lambda>(name, src'). Some (Inr (if name \<noteq> [] then name else raw_name r, src')))"

section \<open>iso.py: detecting SUSP and Rock Ridge\<close>

text \<open>
  \<^verbatim>\<open>Record.current_directory\<close>: the first record of the directory's extent, or \<^verbatim>\<open>None\<close>
  when the extent starts with a length byte 0.
\<close>

definition current_directory :: "decoder \<Rightarrow> Source \<Rightarrow> Record \<Rightarrow> error + (Record option \<times> Source)" where
  "current_directory dec src r =
     (if is_directory r = 0 then Inl AssertionError
      else unpack_record dec (seek src (location r) (length_r r)))"

text \<open>
  Lines 31 to 39 of \<^verbatim>\<open>ISO.__init__\<close>, given \<^verbatim>\<open>self.root\<close>, the root record of the
  primary volume descriptor. Reading an attribute of the \<^verbatim>\<open>None\<close> that
  \<^verbatim>\<open>current_directory\<close> may return raises \<open>AttributeError\<close>.
\<close>

definition ISO_init_susp :: "decoder \<Rightarrow> nat \<Rightarrow> Source \<Rightarrow> Record \<Rightarrow> (error + Source) option" where
  "ISO_init_susp dec fuel src root =
     obind (Some (current_directory dec src root)) (\<lambda>(root_record, src1).
       case root_record of
         None \<Rightarrow> Some (Inl AttributeError)
       | Some root_record \<Rightarrow>
           if embedded_susp_entries root_record \<noteq> []
              \<and> is_SP (embedded_susp_entries root_record ! 0) then
             let src2 = src1\<lparr>susp_starting_index :=
                   PyInt (len_skp (embedded_susp_entries root_record ! 0))\<rparr> in
             obind (susp_entries dec fuel src2 (walk_init root_record)) (\<lambda>(entries, src3).
               let src4 = src3\<lparr>susp_extensions :=
                     map (\<lambda>e. (ext_id e, ext_ver e)) (filter is_ER entries)\<rparr> in
               Some (Inr (if list_ex (\<lambda>er. er \<in> set EXT_VERSIONS) (susp_extensions src4)
                          then src4\<lparr>rockridge := True\<rparr> else src4)))
           else Some (Inr (src1\<lparr>susp_starting_index := PyFalse\<rparr>)))"

text \<open>
  \<^verbatim>\<open>Source.__init__\<close>, for an image: the settings a fresh source starts with. It has no
  buffer before the first \<^verbatim>\<open>seek\<close>; the constructor of the ISO, \<^verbatim>\<open>find_child\<close> and
  \<^verbatim>\<open>content\<close> all seek before they read.
\<close>

definition Source_init :: "string \<Rightarrow> Source" where
  "Source_init img =
     \<lparr>p_buff = [], p_len = 0, cursor = 0, susp_starting_index = PyNone,
      susp_extensions = [], rockridge = False, disc = img\<rparr>"

section \<open>record.py: children, lookup and content\<close>

text \<open>\<^verbatim>\<open>unpack_boundary()\<close>: skip to the next sector boundary of the window.\<close>

definition unpack_boundary :: "Source \<Rightarrow> error + Source" where
  "unpack_boundary src =
     bind (unpack_raw (p_buff src) (cursor src)
             (int SECTOR_LENGTH - int (cursor src mod SECTOR_LENGTH)))
       (\<lambda>(_, cur'). Inr (src\<lparr>cursor := cur'\<rparr>))"

text \<open>
  The generator \<^verbatim>\<open>_children_unsafe(skip_current_parent, start_offset)\<close> in two parts. The
  code before the loop runs when the first child is asked for: the extent is sought, the
  cursor set, and the two leading records read and dropped on request.
\<close>

definition children_open :: "decoder \<Rightarrow> Source \<Rightarrow> Record \<Rightarrow> bool \<Rightarrow> nat \<Rightarrow> error + Source" where
  "children_open dec src r skip_current_parent start_offset =
     (if is_directory r = 0 then Inl AssertionError
      else
        let src1 = (seek src (location r) (length_r r))\<lparr>cursor := start_offset\<rparr> in
        if skip_current_parent then
          bind (unpack_record dec src1) (\<lambda>(_, src2).
          bind (unpack_record dec src2) (\<lambda>(_, src3). Inr src3))
        else Inr src1)"

lemma unpack_record_None:
  "unpack_record dec src = Inr (None, src1) \<Longrightarrow> src1 = src"
proof -
  assume a: "unpack_record dec src = Inr (None, src1)"
  then obtain len cur1 where u: "unpack_B (p_buff src) (cursor src) = Inr (len, cur1)"
    by (auto simp: unpack_record_def Let_def bind_eq_Inr)
  then have c: "cur1 = cursor src + 1"
    using unpack1_cursor [of "p_buff src" "cursor src" LittleEndian FB len cur1] by simp
  from a u c show ?thesis
    by (auto simp: unpack_record_def Let_def bind_eq_Inr rewind_raw_def split: if_splits)
qed

lemma unpack_boundary_cursor:
  "unpack_boundary src = Inr src' \<Longrightarrow> cursor src < cursor src' \<and> p_len src' = p_len src"
proof -
  assume a: "unpack_boundary src = Inr src'"
  have pos: "0 < int SECTOR_LENGTH - int (cursor src mod SECTOR_LENGTH)"
    by (simp add: SECTOR_LENGTH_def)
  then have nn: "0 \<le> int SECTOR_LENGTH - int (cursor src mod SECTOR_LENGTH)" by simp
  from a pos show ?thesis
    unfolding unpack_boundary_def unpack_raw_nonneg [OF nn]
    by (auto split: if_splits)
qed

text \<open>
  The loop of the generator up to its next \<^verbatim>\<open>yield\<close>: \<open>Inr None\<close> when the window is
  used up. \<^verbatim>\<open>len(self._source)\<close> is \<^verbatim>\<open>_len - cursor\<close>, and \<^verbatim>\<open>len\<close> raises
  \<open>ValueError\<close> on a negative result. A record of length 0 sends the cursor to the next
  sector boundary. The attribute \<^verbatim>\<open>_latest_child_start\<close> is written and never read.
\<close>

function children_next :: "decoder \<Rightarrow> Source \<Rightarrow> error + (Record \<times> Source) option" where
  "children_next dec src =
     (if p_len src - int (cursor src) < 0 then Inl ValueError
      else if 0 < p_len src - int (cursor src) then
        (case unpack_record dec src of
           Inl e \<Rightarrow> Inl e
         | Inr (None, src1) \<Rightarrow>
             (case unpack_boundary src1 of
                Inl e \<Rightarrow> Inl e
              | Inr src2 \<Rightarrow> children_next dec src2)
         | Inr (Some record, src1) \<Rightarrow> Inr (Some (record, src1)))
      else Inr None)"
  by pat_completeness auto
termination
proof (relation "measure (\<lambda>(dec, src). nat (p_len src - int (cursor src)))")
  show "wf (measure (\<lambda>(dec, src). nat (p_len src - int (cursor src))))"
    by simp
next
  fix dec :: decoder and src :: Source and r :: "Record option \<times> Source"
    and res :: "Record option" and src1 src2 :: Source
  assume "0 < p_len src - int (cursor src)"
    and "unpack_record dec src = Inr r" and "(res, src1) = r" and "res = None"
    and "unpack_boundary src1 = Inr src2"
  then have "src1 = src" and "cursor src1 < cursor src2 \<and> p_len src2 = p_len src1"
    using unpack_record_None [of dec src src1] unpack_boundary_cursor [of src1 src2] by auto
  with \<open>0 < p_len src - int (cursor src)\<close>
  show "((dec, src2), (dec, src)) \<in> measure (\<lambda>(dec, src). nat (p_len src - int (cursor src)))"
    by simp
qed

declare children_next.simps [simp del]

text \<open>
  Records are objects: the child cache of a directory holds references, \<^verbatim>\<open>find_child\<close>
  returns one, and \<^verbatim>\<open>content\<close> writes \<^verbatim>\<open>_content\<close> into the object it is read on. The
  store maps addresses to record objects; \<open>fresh\<close> is the next unused address. The world
  is the source and the store.
\<close>

record World =
  source :: Source
  heap :: "nat \<Rightarrow> Record"
  fresh :: nat

text \<open>
  The \<^verbatim>\<open>for\<close> loop of \<^verbatim>\<open>find_child\<close> on the directory at address \<open>self\<close>. Each child
  the generator yields is a new object. The result is the address returned from inside
  the loop, or none when the generator is exhausted, together with the local
  \<^verbatim>\<open>child_name\<close>, which is unbound until a first child was named. \<^verbatim>\<open>copy.copy\<close> makes a
  new object with the same attributes. The fuel bounds the walk of each \<^verbatim>\<open>child.name\<close>
  and the number of children scanned.
\<close>

fun find_child_loop ::
  "decoder \<Rightarrow> nat \<Rightarrow> World \<Rightarrow> nat \<Rightarrow> string \<Rightarrow> string option
    \<Rightarrow> (error + (nat option \<times> string option \<times> World)) option" where
  "find_child_loop dec 0 W self nm child_name = None"
| "find_child_loop dec (Suc fuel) W self nm child_name =
     obind (Some (children_next dec (source W))) (\<lambda>next.
       case next of
         None \<Rightarrow> Some (Inr (None, child_name, W))
       | Some (child, src1) \<Rightarrow>
           let saved_cursor = save_cursor src1 in
           obind (Record_name dec fuel src1 child) (\<lambda>(child_name, src2).
             let src3 = restore_cursor src2 saved_cursor;
                 a = fresh W;
                 h1 = (heap W)(a := child);
                 h2 = h1(self := (h1 self)\<lparr>
                        p_child_cache := (p_child_cache (h1 self))(child_name \<mapsto> a),
                        p_last_cached_child := PyInt (int (cursor src3))\<rparr>);
                 W1 = W\<lparr>source := src3, heap := h2, fresh := a + 1\<rparr>
             in
               if child_name = nm then
                 if is_directory child = 0 then
                   Some (Inr (Some (a + 1), Some child_name,
                              W1\<lparr>heap := h2(a + 1 := h2 a), fresh := a + 2\<rparr>))
                 else Some (Inr (Some a, Some child_name, W1))
               else find_child_loop dec fuel W1 self nm (Some child_name)))"

text \<open>
  \<^verbatim>\<open>find_child(name)\<close> on the directory at address \<open>self\<close>. The final \<^verbatim>\<open>raise\<close> formats
  its message from \<^verbatim>\<open>child_name\<close> and \<^verbatim>\<open>repr(self)\<close> before \<open>KeyError\<close> is raised:
  reading the local raises \<open>UnboundLocalError\<close> when the loop never bound it, and
  \<^verbatim>\<open>repr(self)\<close> evaluates \<^verbatim>\<open>self.name\<close>.
\<close>

definition find_child :: "decoder \<Rightarrow> nat \<Rightarrow> World \<Rightarrow> nat \<Rightarrow> string \<Rightarrow> (error + (nat \<times> World)) option" where
  "find_child dec fuel W self nm =
     (case p_child_cache (heap W self) nm of
        Some a \<Rightarrow> Some (Inr (a, W))
      | None \<Rightarrow>
          obind
            (if p_last_cached_child (heap W self) \<noteq> PyFalse then
               obind (Some (if truthy (p_last_cached_child (heap W self)) then
                              children_open dec (source W) (heap W self) False
                                (case p_last_cached_child (heap W self) of
                                   PyInt n \<Rightarrow> nat n | _ \<Rightarrow> 0)
                            else children_open dec (source W) (heap W self) True 0))
                 (\<lambda>src1.
               obind (find_child_loop dec fuel (W\<lparr>source := src1\<rparr>) self nm None)
                 (\<lambda>(found, child_name, W1).
                    case found of
                      Some a \<Rightarrow> Some (Inr (Some a, child_name, W1))
                    | None \<Rightarrow>
                        Some (Inr (None, child_name,
                          W1\<lparr>heap := (heap W1)(self :=
                                (heap W1 self)\<lparr>p_last_cached_child := PyFalse\<rparr>)\<rparr>))))
             else Some (Inr (None, None, W)))
            (\<lambda>(found, child_name, W1).
               case found of
                 Some a \<Rightarrow> Some (Inr (a, W1))
               | None \<Rightarrow>
                   (case child_name of
                      None \<Rightarrow> Some (Inl UnboundLocalError)
                    | Some _ \<Rightarrow>
                        obind (Record_name dec fuel (source W1) (heap W1 self))
                          (\<lambda>_. Some (Inl KeyError)))))"

text \<open>
  The property \<^verbatim>\<open>content\<close>, read on the object at address \<open>a\<close>: the bytes are read once
  and kept in \<^verbatim>\<open>_content\<close> of that object. \<^verbatim>\<open>unpack_all\<close> is
  \<^verbatim>\<open>unpack_raw(len(self))\<close>, and \<^verbatim>\<open>len\<close> raises \<open>ValueError\<close> on a negative result.
\<close>

definition Record_content :: "World \<Rightarrow> nat \<Rightarrow> error + (string \<times> World)" where
  "Record_content W a =
     (let r = heap W a in
      if is_directory r \<noteq> 0 then Inl AssertionError
      else
        case p_content r of
          Some c \<Rightarrow> Inr (c, W)
        | None \<Rightarrow>
            let src1 = seek (source W) (location r) (length_r r) in
            if p_len src1 - int (cursor src1) < 0 then Inl ValueError
            else
              bind (unpack_raw (p_buff src1) (cursor src1) (p_len src1 - int (cursor src1)))
                (\<lambda>(data, cur').
                   Inr (data, W\<lparr>source := src1\<lparr>cursor := cur'\<rparr>,
                                heap := (heap W)(a := r\<lparr>p_content := Some data\<rparr>)\<rparr>)))"

section \<open>Images for evaluation\<close>



section \<open>Names, stated on the entries a walk yields\<close>


text \<open>
  An \<^verbatim>\<open>NM\<close> entry as \<^verbatim>\<open>NM.__init__\<close> builds it for the flags 0, \<open>CONTINUE\<close>,
  \<open>CURRENT\<close> and \<open>PARENT\<close>: it has a name, and the name is not empty.
\<close>

definition named_NM :: "susp_entry \<Rightarrow> bool" where
  "named_NM e = (if is_NM e then nm_name e \<noteq> None \<and> nm_name e \<noteq> Some [] else True)"


text \<open>A file record with the given embedded entries, for evaluation.\<close>

definition file_record :: "susp_entry list \<Rightarrow> Record" where
  "file_record entries =
     \<lparr>location = 2, length_r = 5,
      datetime_r = \<lparr>year = 2000, month = 1, day = 1, hour = 0, minute = 0, second = 0,
                    tz_offset = 0\<rparr>,
      is_hidden = 0, is_directory = 0, raw_name = ''A.TXT'', embedded_susp_entries = entries,
      p_content = None, p_child_cache = Map.empty, p_last_cached_child = PyNone\<rparr>"

text \<open>
  A Rock Ridge image. Sector 1 holds the root directory, 176 bytes: the record of the
  directory itself, whose system-use area is an \<^verbatim>\<open>SP\<close> with \<^verbatim>\<open>len_skp = 7\<close> and an
  \<^verbatim>\<open>ER\<close> for \<open>RRIP_1991A\<close> version 1; the record of the parent; and the record of the
  file \<open>A.TXT;1\<close>, whose system-use area is seven bytes to skip and then two \<^verbatim>\<open>NM\<close>
  entries, \<open>longfile\<close> with \<open>CONTINUE\<close> and \<open>name.txt\<close> without. Sector 2 holds the
  five bytes of the file.
\<close>

definition rec_dot :: string where
  "rec_dot = [CHR 0x3C, CHR 0x00,
     CHR 0x01, CHR 0x00, CHR 0x00, CHR 0x00, CHR 0x00, CHR 0x00, CHR 0x00, CHR 0x01,
     CHR 0xB0, CHR 0x00, CHR 0x00, CHR 0x00, CHR 0x00, CHR 0x00, CHR 0x00, CHR 0xB0,
     CHR 0x64, CHR 0x01, CHR 0x01, CHR 0x00, CHR 0x00, CHR 0x00, CHR 0x00,
     CHR 0x02, CHR 0x00, CHR 0x00,
     CHR 0x01, CHR 0x00, CHR 0x00, CHR 0x01,
     CHR 0x01, CHR 0x00,
     CHR ''S'', CHR ''P'', CHR 0x07, CHR 0x01, CHR 0xBE, CHR 0xEF, CHR 0x07,
     CHR ''E'', CHR ''R'', CHR 0x12, CHR 0x01, CHR 0x0A, CHR 0x00, CHR 0x00, CHR 0x01]
     @ ''RRIP_1991A'' @ [CHR 0x00]"

definition rec_dotdot :: string where
  "rec_dotdot = [CHR 0x2A, CHR 0x00,
     CHR 0x01, CHR 0x00, CHR 0x00, CHR 0x00, CHR 0x00, CHR 0x00, CHR 0x00, CHR 0x01,
     CHR 0xB0, CHR 0x00, CHR 0x00, CHR 0x00, CHR 0x00, CHR 0x00, CHR 0x00, CHR 0xB0,
     CHR 0x64, CHR 0x01, CHR 0x01, CHR 0x00, CHR 0x00, CHR 0x00, CHR 0x00,
     CHR 0x02, CHR 0x00, CHR 0x00,
     CHR 0x01, CHR 0x00, CHR 0x00, CHR 0x01,
     CHR 0x01, CHR 0x01]
     @ ''XXXXXXX'' @ [CHR 0x00]"

definition rec_file :: string where
  "rec_file = [CHR 0x4A, CHR 0x00,
     CHR 0x02, CHR 0x00, CHR 0x00, CHR 0x00, CHR 0x00, CHR 0x00, CHR 0x00, CHR 0x02,
     CHR 0x05, CHR 0x00, CHR 0x00, CHR 0x00, CHR 0x00, CHR 0x00, CHR 0x00, CHR 0x05,
     CHR 0x64, CHR 0x01, CHR 0x01, CHR 0x00, CHR 0x00, CHR 0x00, CHR 0x00,
     CHR 0x00, CHR 0x00, CHR 0x00,
     CHR 0x01, CHR 0x00, CHR 0x00, CHR 0x01,
     CHR 0x07] @ ''A.TXT;1''
     @ ''XXXXXXX''
     @ [CHR ''N'', CHR ''M'', CHR 0x0D, CHR 0x01, CHR 0x01] @ ''longfile''
     @ [CHR ''N'', CHR ''M'', CHR 0x0D, CHR 0x01, CHR 0x00] @ ''name.txt''
     @ [CHR 0x00]"

definition root_dir :: string where
  "root_dir = rec_dot @ rec_dotdot @ rec_file"

definition demo_image :: string where
  "demo_image = replicate 2048 (CHR 0x00) @ root_dir @ replicate 1872 (CHR 0x00) @ ''hello''"

definition demo_datetime :: datetime where
  "demo_datetime = \<lparr>year = 2000, month = 1, day = 1, hour = 0, minute = 0, second = 0, tz_offset = 0\<rparr>"

definition dir_record :: "string \<Rightarrow> susp_entry list \<Rightarrow> Record" where
  "dir_record nm entries =
     \<lparr>location = 1, length_r = 176, datetime_r = demo_datetime,
      is_hidden = 0, is_directory = 2, raw_name = nm, embedded_susp_entries = entries,
      p_content = None, p_child_cache = Map.empty, p_last_cached_child = PyNone\<rparr>"

text \<open>The source with the root directory as its window.\<close>

definition root_window :: "py_index \<Rightarrow> ext list \<Rightarrow> bool \<Rightarrow> nat \<Rightarrow> Source" where
  "root_window idx exts rr c =
     \<lparr>p_buff = root_dir, p_len = 176, cursor = c, susp_starting_index = idx,
      susp_extensions = exts, rockridge = rr, disc = demo_image\<rparr>"

text \<open>
  An image whose root directory record carries, in this order, an entry of an unknown
  signature, the \<^verbatim>\<open>ER\<close> of Rock Ridge and an \<^verbatim>\<open>SP\<close>.
\<close>

definition late_dir :: string where
  "late_dir = [CHR 0x40, CHR 0x00,
     CHR 0x01, CHR 0x00, CHR 0x00, CHR 0x00, CHR 0x00, CHR 0x00, CHR 0x00, CHR 0x01,
     CHR 0x40, CHR 0x00, CHR 0x00, CHR 0x00, CHR 0x00, CHR 0x00, CHR 0x00, CHR 0x40,
     CHR 0x64, CHR 0x01, CHR 0x01, CHR 0x00, CHR 0x00, CHR 0x00, CHR 0x00,
     CHR 0x02, CHR 0x00, CHR 0x00,
     CHR 0x01, CHR 0x00, CHR 0x00, CHR 0x01,
     CHR 0x01, CHR 0x00,
     CHR ''X'', CHR ''X'', CHR 0x04, CHR 0x01,
     CHR ''E'', CHR ''R'', CHR 0x12, CHR 0x01, CHR 0x0A, CHR 0x00, CHR 0x00, CHR 0x01]
     @ ''RRIP_1991A''
     @ [CHR ''S'', CHR ''P'', CHR 0x07, CHR 0x01, CHR 0xBE, CHR 0xEF, CHR 0x00, CHR 0x00]"

definition late_image :: string where
  "late_image = replicate 2048 (CHR 0x00) @ late_dir"

definition late_root :: "susp_entry list \<Rightarrow> Record" where
  "late_root entries =
     \<lparr>location = 1, length_r = 64, datetime_r = demo_datetime,
      is_hidden = 0, is_directory = 2, raw_name = [], embedded_susp_entries = entries,
      p_content = None, p_child_cache = Map.empty, p_last_cached_child = PyNone\<rparr>"

definition late_window :: "py_index \<Rightarrow> nat \<Rightarrow> Source" where
  "late_window idx c =
     \<lparr>p_buff = late_dir, p_len = 64, cursor = c, susp_starting_index = idx,
      susp_extensions = [], rockridge = False, disc = late_image\<rparr>"

section \<open>Settings of the source\<close>

text \<open>Two source states with the same SUSP settings and the same image.\<close>

definition same_settings :: "Source \<Rightarrow> Source \<Rightarrow> bool" where
  "same_settings src src' =
     (rockridge src' = rockridge src \<and> susp_starting_index src' = susp_starting_index src
      \<and> susp_extensions src' = susp_extensions src \<and> disc src' = disc src)"

text \<open>An \<^verbatim>\<open>ER\<close> entry of one of the two Rock Ridge versions of \<open>EXT_VERSIONS\<close>.\<close>

definition recognized :: "susp_entry \<Rightarrow> bool" where
  "recognized e = (is_ER e \<and> ((ext_id e, ext_ver e) = (''RRIP_1991A'', 1)
                               \<or> (ext_id e, ext_ver e) = (''IEEE_P1282'', 1)))"

text \<open>
  The source after the construction of the ISO on the Rock Ridge image, with the root
  directory as its window, and the world in which the root directory record is the object
  at address 0. \<open>demo_world_found\<close> is that world after a first lookup of
  \<open>longfilename.txt\<close>: the file record is cached at address 1, its copy is at address 2.
\<close>

abbreviation RR_window :: "nat \<Rightarrow> Source" where
  "RR_window \<equiv> root_window (PyInt 7) [(''RRIP_1991A'', 1)] True"

definition long_file :: Record where
  "long_file = file_record [NM 1 (Some ''longfile''), NM 0 (Some ''name.txt'')]"

definition demo_world :: World where
  "demo_world = \<lparr>source = RR_window 60, heap = (\<lambda>_. dir_record [] []), fresh = 1\<rparr>"

definition demo_world_found :: World where
  "demo_world_found =
     \<lparr>source = RR_window 176,
      heap = (\<lambda>_. dir_record [] [])
        (1 := long_file,
         0 := (dir_record [] [])\<lparr>p_child_cache := [''longfilename.txt'' \<mapsto> 1],
                                   p_last_cached_child := PyInt 176\<rparr>,
         2 := long_file),
      fresh = 3\<rparr>"

section \<open>Properties of the readers\<close>

text \<open>
  C4. \<open>unpack_both\<close> of a single code reads the field twice (\<open>2 * calcsize1 st\<close> bytes),
  decodes the first copy as little-endian and the second as big-endian, returns the common
  value with the cursor past both copies when the two agree, and raises the both-endian
  mismatch \<open>SourceError\<close> whenever they differ, whatever the little-endian copy holds.
  When the buffer holds fewer than the two copies, the read itself raises the buffer
  under-run.
\<close>

theorem unpack_both_reads_twice:
  "unpack_both buff cur st =
     (let n = calcsize1 st;
          first = take n (drop cur buff);
          second = take n (drop (cur + n) buff) in
      if length buff < cur + 2 * n then Inl (SourceError ''Source buffer under-run'')
      else if field_value LittleEndian st first = field_value BigEndian st second
        then Inr (field_value LittleEndian st first, cur + 2 * n)
      else Inl (SourceError ''Both-endian value mismatch''))"
proof -
  let ?n = "calcsize1 st"
  have size: "int (calcsize [st, st]) = int (2 * ?n)"
    by (simp add: calcsize_def)
  have npos: "0 < ?n" by (cases st) simp_all
  have raw: "unpack_raw buff cur (int (2 * ?n)) =
      (if 2 * ?n \<le> length buff - cur then Inr (take (2 * ?n) (drop cur buff), cur + 2 * ?n)
       else Inl (SourceError ''Source buffer under-run''))"
    using unpack_raw_nonneg [of "int (2 * ?n)" buff cur] by (simp only: nat_int of_nat_0_le_iff)
  show ?thesis
  proof (cases "length buff < cur + 2 * ?n")
    case True
    then have "\<not> 2 * ?n \<le> length buff - cur" using npos by linarith
    with True show ?thesis
      by (simp only: unpack_both_def unpack_both'_def size raw Let_def if_True if_False bind_Inl)
  next
    case False
    then have fits: "2 * ?n \<le> length buff - cur" by linarith
    have first: "take ?n (take (2 * ?n) (drop cur buff)) = take ?n (drop cur buff)"
      by (simp add: min_def)
    have second: "take ?n (drop ?n (take (2 * ?n) (drop cur buff))) = take ?n (drop (cur + ?n) buff)"
      by (simp add: drop_take add.commute)
    have "unpack_both buff cur st =
        (let a = field_value LittleEndian st (take ?n (take (2 * ?n) (drop cur buff)));
             b = field_value BigEndian st (take ?n (drop ?n (take (2 * ?n) (drop cur buff)))) in
         if a \<noteq> b then Inl (SourceError ''Both-endian value mismatch'')
         else Inr (a, cur + 2 * ?n))"
      unfolding unpack_both_def unpack_both'_def size raw using fits by simp
    with False show ?thesis
      by (simp add: first second Let_def)
  qed
qed

section \<open>Symbolic links\<close>

lemma unpack_B_at:
  "unpack_B (pre @ c # rest) (length pre) = Inr (byte c, length pre + 1)"
  by (simp add: unpack1_def calcsize_def unpack_raw_nonneg field_value_def)

lemma unpack_raw_at:
  "unpack_raw (pre @ data @ rest) (length pre) (int (length data)) = Inr (data, length pre + length data)"
  by (simp add: unpack_raw_nonneg)

lemma byte_char_of: "0 \<le> n \<Longrightarrow> n < 256 \<Longrightarrow> byte (char_of n) = n"
  by (simp add: byte_def of_char_of)

lemma byte_char_of_nat: "n < 256 \<Longrightarrow> byte (char_of (n::nat)) = int n"
  using of_char_of [of "int n"] by (simp add: byte_def del: of_char_of)

lemma encode_nil: "encode_components cs = [] \<longleftrightarrow> cs = []"
  by (cases cs) auto

lemma wf_flags: "wf_component (cf, content) \<Longrightarrow> 0 \<le> cf \<and> cf < 256"
  by (auto simp: wf_component_def SL_CURRENT_def SL_PARENT_def SL_ROOT_def SL_CONTINUE_def split: if_splits)

lemma SL_component_wf:
  "wf_component (cf, content) \<Longrightarrow>
   SL_component cf (int (length content)) content path = Inr (path @ component_text (cf, content))"
  by (auto simp: wf_component_def SL_component_def component_text_def
      SL_CURRENT_def SL_PARENT_def SL_ROOT_def SL_CONTINUE_def split: if_splits)

lemma SL_loop_encode:
  "list_all wf_component cs \<Longrightarrow>
   SL_loop (pre @ encode_components cs @ post) (int (length pre + length (encode_components cs))) flags
       (length pre) path
     = Inr (path @ sl_path_spec flags cs, length pre + length (encode_components cs))"
proof (induction cs arbitrary: pre path)
  case Nil
  then show ?case by (simp add: SL_loop.simps)
next
  case (Cons c cs)
  obtain cf content where c: "c = (cf, content)" by (cases c)
  from Cons.prems c have wf: "wf_component (cf, content)" and wfs: "list_all wf_component cs"
    by simp_all
  let ?rest = "encode_components cs"
  let ?pre' = "pre @ char_of cf # char_of (int (length content)) # content"
  let ?buff = "pre @ encode_components (c # cs) @ post"
  let ?target = "int (length pre + length (encode_components (c # cs)))"
  have buff1: "?buff = pre @ char_of cf # (char_of (int (length content)) # content @ ?rest @ post)"
    by (simp add: c)
  have buff2: "?buff = (pre @ [char_of cf]) @ char_of (int (length content)) # (content @ ?rest @ post)"
    by (simp add: c)
  have buff3: "?buff = (pre @ [char_of cf, char_of (int (length content))]) @ content @ (?rest @ post)"
    by (simp add: c)
  have buff4: "?buff = ?pre' @ ?rest @ post"
    by (simp add: c)
  have len: "length content < 256" using wf by (simp add: wf_component_def)
  have r1: "unpack_B ?buff (length pre) = Inr (cf, length pre + 1)"
    unfolding buff1 using unpack_B_at [of pre "char_of cf"] wf_flags [OF wf]
    by (simp add: byte_char_of)
  have r2: "unpack_B ?buff (length pre + 1) = Inr (int (length content), length pre + 2)"
    unfolding buff2 using unpack_B_at [of "pre @ [char_of cf]" "char_of (int (length content))"] len
    by (simp add: byte_char_of_nat)
  have r3: "unpack_raw ?buff (length pre + 2) (int (length content))
      = Inr (content, length pre + 2 + length content)"
    unfolding buff3
    using unpack_raw_at [of "pre @ [char_of cf, char_of (int (length content))]" content]
    by simp
  have tgt: "?target = int (length ?pre' + length ?rest)"
    by (simp add: c)
  have lt: "int (length pre) < ?target" by (simp add: c)
  have cur3: "length pre + 2 + length content = length ?pre'" by simp
  have le: "int (length ?pre') \<le> ?target" by (simp add: c)
  have at_end: "int (length ?pre') = ?target \<longleftrightarrow> cs = []"
    by (simp add: c encode_nil)
  define P where "P = SL_separator flags cf (length ?pre') ?target (path @ component_text (cf, content))"
  have sep: "P = path @ component_text c
        @ (if fst c = SL_CONTINUE \<or> (fst c = 0 \<and> cs = [] \<and> flags AND SL_CONTINUE = 0) then [] else ''/'')"
    unfolding P_def SL_separator_def at_end by (simp add: c)
  have step: "SL_loop ?buff ?target flags (length pre) path = SL_loop ?buff ?target flags (length ?pre') P"
    unfolding P_def
    apply (subst SL_loop.simps)
    apply (simp only: lt if_True r1 r2 r3 sum.case prod.case cur3 le susp_assert_simps
        SL_component_wf [OF wf])
    done
  have ih: "SL_loop ?buff ?target flags (length ?pre') P
      = Inr (P @ sl_path_spec flags cs, length ?pre' + length ?rest)"
    unfolding buff4 tgt by (rule Cons.IH [OF wfs])
  have res: "P @ sl_path_spec flags cs = path @ sl_path_spec flags (c # cs)"
    unfolding sep by simp
  have len': "length ?pre' + length ?rest = length pre + length (encode_components (c # cs))"
    by (simp add: c)
  show ?case
    unfolding step ih res len' ..
qed

text \<open>
  What \<^verbatim>\<open>SL.__init__\<close> builds. For an \<^verbatim>\<open>SL\<close> entry whose payload is the flags byte
  followed by well-formed components, it consumes the payload and builds the path
  \<open>sl_path_spec\<close>: \<open>.\<close> for \<open>CURRENT\<close>, \<open>..\<close> for \<open>PARENT\<close>, nothing for
  \<open>ROOT\<close>, the content for flags 0 or \<open>CONTINUE\<close>, and a \<open>/\<close> after every component
  except one whose flags are \<open>CONTINUE\<close> and except a final component with flags 0 of an
  \<^verbatim>\<open>SL\<close> whose \<open>CONTINUE\<close> bit is clear.
\<close>

lemma SL_init_path:
  assumes "list_all wf_component cs" and "cs \<noteq> []" and "0 \<le> flags" and "flags < 256"
  shows "SL_init (pre @ char_of flags # encode_components cs @ post) (length pre)
           (1 + int (length (encode_components cs)))
         = Inr (SL flags (sl_path_spec flags cs), length pre + 1 + length (encode_components cs))"
proof -
  let ?buff = "pre @ char_of flags # encode_components cs @ post"
  from assms(2) have two: "2 \<le> 1 + int (length (encode_components cs))"
    by (cases cs) auto
  have r1: "unpack_B ?buff (length pre) = Inr (flags, length pre + 1)"
    using unpack_B_at [of pre "char_of flags"] assms(3,4) by (simp add: byte_char_of)
  have buff: "?buff = (pre @ [char_of flags]) @ encode_components cs @ post" by simp
  have loop: "SL_loop ?buff (int (length pre) + (1 + int (length (encode_components cs)))) flags
      (length pre + 1) [] = Inr (sl_path_spec flags cs, length pre + 1 + length (encode_components cs))"
    unfolding buff using SL_loop_encode [OF assms(1), of "pre @ [char_of flags]" post flags "[]"]
    by (simp add: add.commute add.left_commute)
  show ?thesis
    unfolding SL_init_def by (simp only: two susp_assert_simps bind_Inr Let_def r1 prod.case loop)
qed

text \<open>
  The components \<open>[ROOT], [PARENT], ["etc"], ["hosts"]\<close> yield \<open>/../etc/hosts\<close>.
\<close>

lemma SL_init_etc_hosts:
  "list_all wf_component [(SL_ROOT, []), (SL_PARENT, []), (0, ''etc''), (0, ''hosts'')]
   \<and> SL_init (char_of (0::int)
        # encode_components [(SL_ROOT, []), (SL_PARENT, []), (0, ''etc''), (0, ''hosts'')]) 0 17
     = Inr (SL 0 ''/../etc/hosts'', 17)"
proof -
  let ?cs = "[(SL_ROOT, []), (SL_PARENT, []), (0, ''etc''), (0, ''hosts'')]"
  have wf: "list_all wf_component ?cs"
    by (simp add: wf_component_def SL_ROOT_def SL_PARENT_def SL_CURRENT_def SL_CONTINUE_def)
  have len: "1 + int (length (encode_components ?cs)) = 17" "0 + 1 + length (encode_components ?cs) = 17"
    by simp_all
  have path: "sl_path_spec 0 ?cs = ''/../etc/hosts''"
    by (simp add: component_text_def SL_ROOT_def SL_PARENT_def SL_CURRENT_def SL_CONTINUE_def)
  from SL_init_path [OF wf, of 0 "[]" "[]"] wf show ?thesis
    unfolding path by (simp only: len list.size append_Nil append_Nil2) simp
qed

text \<open>
  Where the path the code builds and the path with no \<open>/\<close> after the final component
  part: on well-formed components they agree when the final component is a name (flags 0
  or \<open>CONTINUE\<close>), and the code's path has one \<open>/\<close> more when the final component of
  an \<^verbatim>\<open>SL\<close> with its \<open>CONTINUE\<close> bit clear is \<open>CURRENT\<close>, \<open>PARENT\<close> or \<open>ROOT\<close>.
\<close>

lemma wf_continue_bit:
  "wf_component c \<Longrightarrow> (fst c AND SL_CONTINUE \<noteq> 0) = (fst c = SL_CONTINUE)"
  by (cases c) (auto simp: wf_component_def SL_CURRENT_def SL_PARENT_def SL_ROOT_def SL_CONTINUE_def
      split: if_splits)

lemma final_name_agrees:
  assumes "list_all wf_component cs" and "wf_component (cf, content)"
    and "cf = 0 \<or> cf = SL_CONTINUE"
  shows "sl_path_spec flags (cs @ [(cf, content)]) = sl_path_claimed flags (cs @ [(cf, content)])"
  using assms
proof (induction cs)
  case Nil
  then show ?case
    by (auto simp: SL_CONTINUE_def)
next
  case (Cons c cs)
  then show ?case by (simp add: wf_continue_bit)
qed

lemma final_dots_get_slash:
  assumes "list_all wf_component cs"
    and "cf = SL_CURRENT \<or> cf = SL_PARENT \<or> cf = SL_ROOT"
    and "flags AND SL_CONTINUE = 0"
  shows "sl_path_spec flags (cs @ [(cf, [])]) = sl_path_claimed flags (cs @ [(cf, [])]) @ ''/''"
  using assms
proof (induction cs)
  case Nil
  then show ?case
    by (auto simp: SL_CURRENT_def SL_PARENT_def SL_ROOT_def SL_CONTINUE_def)
next
  case (Cons c cs)
  then show ?case by (simp add: wf_continue_bit)
qed

text \<open>
  C6 fails on an \<^verbatim>\<open>SL\<close> whose final component is \<open>PARENT\<close> or \<open>CURRENT\<close>. The
  branch that appends no \<open>/\<close> carries the comment "If this is the last component in the
  link, don't append a /", and its test \<^verbatim>\<open>comp_flags == 0\<close> lets only a final name
  through: a link to \<open>..\<close> is built as \<open>../\<close>, a link to \<open>.\<close> as \<open>./\<close> and a link to
  \<open>usr/..\<close> as \<open>usr/../\<close>, where the final component of the final \<^verbatim>\<open>SL\<close> is to
  have no separator behind it.
\<close>

theorem SL_final_dots_keep_slash:
  "SL_init (char_of (0::int) # encode_components [(SL_PARENT, [])]) 0 3 = Inr (SL 0 ''../'', 3)
   \<and> sl_path_claimed 0 [(SL_PARENT, [])] = ''..''
   \<and> SL_init (char_of (0::int) # encode_components [(SL_CURRENT, [])]) 0 3 = Inr (SL 0 ''./'', 3)
   \<and> sl_path_claimed 0 [(SL_CURRENT, [])] = ''.''
   \<and> SL_init (char_of (0::int) # encode_components [(0, ''usr''), (SL_PARENT, [])]) 0 8
       = Inr (SL 0 ''usr/../'', 8)
   \<and> sl_path_claimed 0 [(0, ''usr''), (SL_PARENT, [])] = ''usr/..''"
  by (simp add: SL_init_def SL_loop.simps SL_component_def SL_separator_def unpack1_def
      unpack_raw_def calcsize_def field_value_def byte_def component_text_def
      SL_ROOT_def SL_PARENT_def SL_CURRENT_def SL_CONTINUE_def)

section \<open>The SUSP entry engine\<close>

text \<open>
  What \<^verbatim>\<open>unpack_susp\<close> does, for any decoder: nothing when fewer than four bytes are
  left; the header is read and un-read when the entry declares more bytes than are left;
  and when the entry declares at least its own header, fits the space left and lies within
  the buffer, a constructor that raised \<open>SUSPError\<close> or did not read the payload exactly
  is replaced by the \<^verbatim>\<open>UnknownEntry\<close> of the payload, with the cursor at the end of the
  entry.
\<close>

lemma unpack_susp_short:
  "maxlen < 4 \<Longrightarrow> unpack_susp dec exts pe buff cur maxlen = Inr (None, cur)"
  by (simp add: unpack_susp_def)

lemma unpack_susp_rewind:
  assumes "4 \<le> maxlen" and "unpack_2sBB buff cur = Inr ((signature, len, version), cur1)"
    and "maxlen < len"
  shows "unpack_susp dec exts pe buff cur maxlen = Inr (None, cur)"
proof -
  from assms(2) have "cur1 = cur + 4" by (rule unpack_2sBB_cursor)
  with assms show ?thesis
    by (simp add: unpack_susp_def rewind_raw_def)
qed

lemma unpack_susp_fallback:
  assumes len: "4 \<le> len" "len \<le> maxlen"
    and hdr: "unpack_2sBB buff cur = Inr ((signature, len, version), cur1)"
    and fits: "int cur + len \<le> int (length buff)"
    and dec: "dec (if pe < length exts then Some (exts ! pe) else None) signature version
                (len - 4) buff cur1 = Inl SUSPError
              \<or> (\<exists>entry n. dec (if pe < length exts then Some (exts ! pe) else None) signature
                  version (len - 4) buff cur1 = Inr (entry, n) \<and> int n \<noteq> len - 4)"
  shows "unpack_susp dec exts pe buff cur maxlen
         = Inr (Some (UnknownEntry signature version (take (nat (len - 4)) (drop (cur + 4) buff))),
                cur + nat len)"
proof -
  from hdr have c1: "cur1 = cur + 4" by (rule unpack_2sBB_cursor)
  from len have m: "\<not> maxlen < 4" "\<not> maxlen < len" by linarith+
  from len fits have room: "nat (len - 4) \<le> length buff - (cur + 4)" by linarith
  from len have pos: "0 \<le> len - 4" by simp
  have u: "UnknownEntry_init buff (cur + 4) signature version (len - 4)
      = Inr (UnknownEntry signature version (take (nat (len - 4)) (drop (cur + 4) buff)),
             cur + 4 + nat (len - 4))"
    using room by (simp add: UnknownEntry_init_def unpack_raw_nonneg [OF pos])
  from len have e: "int (cur + 4 + nat (len - 4)) = int cur + len" "cur + 4 + nat (len - 4) = cur + nat len"
    by linarith+
  from dec show ?thesis
  proof
    assume "dec (if pe < length exts then Some (exts ! pe) else None) signature version
                (len - 4) buff cur1 = Inl SUSPError"
    with len show ?thesis
      unfolding unpack_susp_def by (simp add: m hdr Let_def u e)
  next
    assume "\<exists>entry n. dec (if pe < length exts then Some (exts ! pe) else None) signature
                  version (len - 4) buff cur1 = Inr (entry, n) \<and> int n \<noteq> len - 4"
    then obtain entry n where
      d: "dec (if pe < length exts then Some (exts ! pe) else None) signature
                  version (len - 4) buff cur1 = Inr (entry, n)" and n: "int n \<noteq> len - 4"
      by blast
    from n c1 have "int (cur1 + n) \<noteq> int cur + len" by simp
    with len show ?thesis
      unfolding unpack_susp_def using d by (simp add: m hdr Let_def u e)
  qed
qed

text \<open>
  An entry that declares fewer than the four bytes of its header never comes back: for
  the length 0, a constructor that raised \<open>SUSPError\<close> leaves \<^verbatim>\<open>new_susp\<close> unbound.
\<close>

lemma unpack_susp_unbound:
  assumes "4 \<le> maxlen" and "unpack_2sBB buff cur = Inr ((signature, 0, version), cur1)"
    and "dec (if pe < length exts then Some (exts ! pe) else None) signature version
                (- 4) buff cur1 = Inl SUSPError"
  shows "unpack_susp dec exts pe buff cur maxlen = Inl UnboundLocalError"
  using assms unfolding unpack_susp_def by (simp add: Let_def)

lemma unpack_susp_short_entry:
  assumes "4 \<le> maxlen" and "unpack_2sBB buff cur = Inr ((signature, len, version), cur1)"
    and "len < 4"
  shows "\<exists>e. unpack_susp dec exts pe buff cur maxlen = Inl e"
proof (cases "unpack_susp dec exts pe buff cur maxlen")
  case (Inl e)
  then show ?thesis by blast
next
  case (Inr r)
  obtain res cur' where r: "r = (res, cur')" by (cases r)
  show ?thesis
  proof (cases res)
    case None
    from assms have "\<not> maxlen < 4" "\<not> maxlen < len" by linarith+
    with Inr r None assms(2) show ?thesis
      by (auto simp: unpack_susp_def Let_def bind_eq_Inr split: if_splits option.splits)
  next
    case (Some entry)
    with Inr r have "unpack_susp dec exts pe buff cur maxlen = Inr (Some entry, cur')" by simp
    from unpack_susp_progress [OF this] have "cur + 4 \<le> cur'" ..
    moreover from Inr r Some assms have "int cur' = int cur + len"
      by (auto simp: unpack_susp_def Let_def bind_eq_Inr split: if_splits option.splits)
    ultimately show ?thesis using assms(3) by linarith
  qed
qed

text \<open>
  C3 fails on an entry that declares fewer bytes than its own header. For the declared
  length 0 and a constructor that raises \<open>SUSPError\<close> (here \<^verbatim>\<open>NM\<close>, with Rock Ridge in
  scope: its first assertion is \<^verbatim>\<open>length >= 1\<close>), the cursor is put back to the start,
  which is where an entry of length 0 ends, so the fallback is skipped, the assertion holds
  and \<^verbatim>\<open>return new_susp\<close> reads a local that was never bound. For four bytes of zero
  padding no decoder makes the call return: it ends in an exception whatever
  \<^verbatim>\<open>SUSP_Entry.unpack\<close> does.
\<close>

theorem unpack_susp_short_entry_raises:
  "unpack_susp SUSP_Entry_unpack [RRIP_109] 0 [CHR ''N'', CHR ''M'', CHR 0x00, CHR 0x01] 0 4
     = Inl UnboundLocalError
   \<and> (\<forall>dec exts pe. \<exists>e.
        unpack_susp dec exts pe [CHR 0x00, CHR 0x00, CHR 0x00, CHR 0x00] 0 4 = Inl e)"
proof
  show "unpack_susp SUSP_Entry_unpack [RRIP_109] 0 [CHR ''N'', CHR ''M'', CHR 0x00, CHR 0x01] 0 4
     = Inl UnboundLocalError"
    by (simp add: unpack_susp_def unpack_2sBB_def unpack_raw_def byte_def SUSP_Entry_unpack_def
        NM_init_def Let_def RRIP_109_def RRIP_112_def)
next
  have "unpack_2sBB [CHR 0x00, CHR 0x00, CHR 0x00, CHR 0x00] 0
      = Inr (([CHR 0x00, CHR 0x00], 0, 0), 4)"
    by (simp add: unpack_2sBB_def unpack_raw_def byte_def)
  then show "\<forall>dec exts pe. \<exists>e.
      unpack_susp dec exts pe [CHR 0x00, CHR 0x00, CHR 0x00, CHR 0x00] 0 4 = Inl e"
    using unpack_susp_short_entry [of 4 "[CHR 0x00, CHR 0x00, CHR 0x00, CHR 0x00]" 0] by simp
qed

section \<open>The walk over the SUSP entries\<close>















section \<open>The name of a record\<close>




lemma NM_init_named:
  assumes "NM_init buff cur len = Inr (e, cur')"
    and "nm_flags e = 0 \<or> nm_flags e = NM_CONTINUE \<or> nm_flags e = NM_CURRENT \<or> nm_flags e = NM_PARENT"
  shows "named_NM e"
proof -
  from assms(1) obtain flags cur1 name_content where
    f: "unpack_B buff cur = Inr (flags, cur1)" and l: "1 \<le> len"
    and n: "unpack_raw buff cur1 (len - 1) = Inr (name_content, cur')"
    by (auto simp: NM_init_def bind_eq_Inr susp_assert_def split: if_splits)
  from n l have len: "int (length name_content) = len - 1"
    by (auto simp: unpack_raw_nonneg split: if_splits)
  from assms f n l len show ?thesis
    by (auto simp: NM_init_def bind_eq_Inr susp_assert_def named_NM_def
        NM_CONTINUE_def NM_CURRENT_def NM_PARENT_def split: if_splits)
qed


lemma four: "(4::nat) = Suc (Suc (Suc (Suc 0)))" by simp








section \<open>Evaluating the images\<close>

lemma dot_fields: "record_fields root_dir 1 = Inr ((1, 176, demo_datetime, 2, []), 34)"
  by code_simp

lemma dot_fields_Suc: "record_fields root_dir (Suc 0) = Inr ((1, 176, demo_datetime, 2, []), 34)"
  using dot_fields by simp

lemma dotdot_fields: "record_fields root_dir 61 = Inr ((1, 176, demo_datetime, 2, [CHR 0x01]), 94)"
  by code_simp

lemma file_fields: "record_fields root_dir 103 = Inr ((2, 5, demo_datetime, 0, ''A.TXT''), 142)"
  by code_simp

lemma dot_system_use_unknown:
  "system_use SUSP_Entry_unpack [] root_dir 60 34 PyNone = Inr ([SP 7, ER ''RRIP_1991A'' 1], 59)"
  by code_simp

lemma dot_system_use:
  "system_use SUSP_Entry_unpack [RRIP_109] root_dir 60 34 (PyInt 7) = Inr ([ER ''RRIP_1991A'' 1], 59)"
  by code_simp

lemma dotdot_system_use:
  "system_use SUSP_Entry_unpack [RRIP_109] root_dir 102 94 (PyInt 7) = Inr ([], 101)"
  by code_simp

lemma file_system_use:
  "system_use SUSP_Entry_unpack [RRIP_109] root_dir 176 142 (PyInt 7)
     = Inr ([NM 1 (Some ''longfile''), NM 0 (Some ''name.txt'')], 175)"
  by code_simp

lemma length_root_dir: "length root_dir = 176"
  by (simp add: root_dir_def rec_dot_def rec_dotdot_def rec_file_def)

lemma pad_root_dir:
  "unpack_raw root_dir 59 1 = Inr ([CHR 0x00], 60)"
  "unpack_raw root_dir 101 1 = Inr ([CHR 0x00], 102)"
  "unpack_raw root_dir 175 1 = Inr ([CHR 0x00], 176)"
  by code_simp+

lemma length_bytes:
  "unpack_B root_dir 0 = Inr (60, 1)"
  "unpack_B root_dir 60 = Inr (42, 61)"
  "unpack_B root_dir 102 = Inr (74, 103)"
  by code_simp+

lemma F1: "Record_init SUSP_Entry_unpack [] root_dir 1 59 PyNone
   = Inr (dir_record [] [SP 7, ER ''RRIP_1991A'' 1], 60)"
  by (simp add: Record_init_def dot_fields_Suc dot_system_use_unknown pad_root_dir dir_record_def)

lemma F2: "Record_init SUSP_Entry_unpack [RRIP_109] root_dir 103 73 (PyInt 7)
   = Inr (file_record [NM 1 (Some ''longfile''), NM 0 (Some ''name.txt'')], 176)"
  by (simp add: Record_init_def file_fields file_system_use pad_root_dir file_record_def demo_datetime_def)

lemma F3: "Record_init SUSP_Entry_unpack [RRIP_109] root_dir 1 59 (PyInt 7)
   = Inr (dir_record [] [ER ''RRIP_1991A'' 1], 60)"
  by (simp add: Record_init_def dot_fields_Suc dot_system_use pad_root_dir dir_record_def)

lemma F4: "Record_init SUSP_Entry_unpack [RRIP_109] root_dir 61 41 (PyInt 7)
   = Inr (dir_record [CHR 0x01] [], 102)"
  by (simp add: Record_init_def dotdot_fields dotdot_system_use pad_root_dir dir_record_def)
lemma drop_sector: "length pre = n \<Longrightarrow> drop n (pre @ xs) = xs"
  by simp

lemma take_extent: "length xs = n \<Longrightarrow> take n (xs @ ys) = xs"
  by simp

lemma seek_root:
  "disc src = demo_image \<Longrightarrow> seek src 1 176 = src\<lparr>p_buff := root_dir, p_len := 176, cursor := 0\<rparr>"
  by (simp add: seek_def demo_image_def SECTOR_LENGTH_def drop_sector take_extent length_root_dir)

lemma dir_record_sel [simp]:
  "location (dir_record nm es) = 1" "length_r (dir_record nm es) = 176"
  "is_directory (dir_record nm es) = 2" "embedded_susp_entries (dir_record nm es) = es"
  "raw_name (dir_record nm es) = nm" "p_child_cache (dir_record nm es) = Map.empty"
  "p_last_cached_child (dir_record nm es) = PyNone" "p_content (dir_record nm es) = None"
  by (simp_all add: dir_record_def)

lemma root_window_sel [simp]:
  "p_buff (root_window idx exts rr c) = root_dir" "p_len (root_window idx exts rr c) = 176"
  "cursor (root_window idx exts rr c) = c" "susp_starting_index (root_window idx exts rr c) = idx"
  "susp_extensions (root_window idx exts rr c) = exts" "rockridge (root_window idx exts rr c) = rr"
  "disc (root_window idx exts rr c) = demo_image"
  by (simp_all add: root_window_def)

lemma root_window_upd [simp]:
  "(root_window idx exts rr c)\<lparr>cursor := c'\<rparr> = root_window idx exts rr c'"
  "(root_window idx exts rr c)\<lparr>susp_starting_index := idx'\<rparr> = root_window idx' exts rr c"
  "(root_window idx exts rr c)\<lparr>susp_extensions := exts'\<rparr> = root_window idx exts' rr c"
  "(root_window idx exts rr c)\<lparr>rockridge := rr'\<rparr> = root_window idx exts rr' c"
  by (simp_all add: root_window_def)

lemma seek_demo_root:
  "seek (Source_init demo_image) 1 176 = root_window PyNone [] False 0"
proof -
  have d: "disc (Source_init demo_image) = demo_image" by (simp add: Source_init_def)
  show ?thesis
    unfolding seek_root [OF d] by (simp add: Source_init_def root_window_def)
qed

lemma demo_current_directory:
  "current_directory SUSP_Entry_unpack (Source_init demo_image) (dir_record [] [])
     = Inr (Some (dir_record [] [SP 7, ER ''RRIP_1991A'' 1]), root_window PyNone [] False 60)"
  unfolding current_directory_def
  by (simp add: seek_demo_root unpack_record_def length_bytes F1 [unfolded One_nat_def])

lemma demo_walk:
  "susp_entries dec 4 src (walk_init (dir_record [] [SP 7, ER ''RRIP_1991A'' 1]))
     = Some (Inr ([SP 7, ER ''RRIP_1991A'' 1], src))"
  unfolding four by (simp add: walk_init_def walk_step_def after_yield_def)

lemma demo_ISO_init:
  "ISO_init_susp SUSP_Entry_unpack 4 (Source_init demo_image) (dir_record [] [])
     = Some (Inr (root_window (PyInt 7) [(''RRIP_1991A'', 1)] True 60))"
  unfolding ISO_init_susp_def demo_current_directory
  by (simp add: demo_walk EXT_VERSIONS_def RRIP_109_def RRIP_112_def)

lemma late_fields: "record_fields late_dir (Suc 0) = Inr ((1, 64, demo_datetime, 2, []), 34)"
  by code_simp

lemma late_system_use:
  "system_use SUSP_Entry_unpack [] late_dir 64 34 PyNone
     = Inr ([ER ''RRIP_1991A'' 1, SP 0], 63)"
  by code_simp

lemma late_bytes:
  "unpack_B late_dir 0 = Inr (64, 1)" "unpack_raw late_dir 63 1 = Inr ([CHR 0x00], 64)"
  by code_simp+

lemma late_Record_init:
  "Record_init SUSP_Entry_unpack [] late_dir (Suc 0) 63 PyNone
     = Inr (late_root [ER ''RRIP_1991A'' 1, SP 0], 64)"
  by (simp add: Record_init_def late_fields late_system_use late_bytes late_root_def)

lemma seek_late:
  "seek (Source_init late_image) 1 64 = late_window PyNone 0"
proof -
  have "length late_dir = 64" by (simp add: late_dir_def)
  then show ?thesis
    by (simp add: seek_def late_image_def SECTOR_LENGTH_def Source_init_def late_window_def)
qed

lemma late_current_directory:
  "current_directory SUSP_Entry_unpack (Source_init late_image) (late_root [])
     = Inr (Some (late_root [ER ''RRIP_1991A'' 1, SP 0]), late_window PyNone 64)"
proof -
  have "unpack_record SUSP_Entry_unpack (late_window PyNone 0)
      = Inr (Some (late_root [ER ''RRIP_1991A'' 1, SP 0]), late_window PyNone 64)"
    by (simp add: unpack_record_def late_window_def late_bytes late_Record_init)
  then show ?thesis
    by (simp add: current_directory_def late_root_def [of "[]"] seek_late)
qed

section \<open>SUSP and Rock Ridge detection\<close>

lemma same_settings_refl [simp]: "same_settings src src"
  by (simp add: same_settings_def)

lemma same_settings_seek [simp]: "same_settings src (seek src a b)"
  by (simp add: same_settings_def seek_def)

lemma same_settings_cursor [simp]: "same_settings src (src'\<lparr>cursor := c\<rparr>) = same_settings src src'"
  by (simp add: same_settings_def)

lemma same_settings_trans: "same_settings a b \<Longrightarrow> same_settings b c \<Longrightarrow> same_settings a c"
  by (simp add: same_settings_def)

lemma walk_step_settings:
  assumes "walk_step dec src w = Inr st"
  shows "case st of Stop \<Rightarrow> True | Continue src' w' \<Rightarrow> same_settings src src'
          | Yield e src' w' \<Rightarrow> same_settings src src'"
  using assms
  by (auto simp: walk_step_def bind_eq_Inr Let_def
      split: if_splits option.splits list.splits susp_entry.splits step.splits)

lemma susp_entries_settings:
  "susp_entries dec fuel src w = Some (Inr (entries, src')) \<Longrightarrow> same_settings src src'"
proof (induction fuel arbitrary: src w entries)
  case 0
  then show ?case by simp
next
  case (Suc fuel)
  show ?case
  proof (cases "walk_step dec src w")
    case (Inl e)
    with Suc.prems show ?thesis by simp
  next
    case (Inr st)
    note ws = walk_step_settings [OF Inr]
    show ?thesis
    proof (cases st)
      case Stop
      with Inr Suc.prems show ?thesis by simp
    next
      case (Continue src1 w1)
      with Inr Suc.prems have "susp_entries dec fuel src1 w1 = Some (Inr (entries, src'))" by simp
      from Suc.IH [OF this] ws Continue show ?thesis
        by (auto intro: same_settings_trans)
    next
      case (Yield e src1 w1)
      with Inr Suc.prems obtain es where "susp_entries dec fuel src1 w1 = Some (Inr (es, src'))"
        by (auto simp: obind_def split: option.splits sum.splits)
      from Suc.IH [OF this] ws Yield show ?thesis
        by (auto intro: same_settings_trans)
    qed
  qed
qed

lemma unpack_record_settings:
  "unpack_record dec src = Inr (r, src') \<Longrightarrow> same_settings src src'"
  by (auto simp: unpack_record_def Let_def bind_eq_Inr split: if_splits)

lemma current_directory_settings:
  "current_directory dec src r = Inr (rr, src') \<Longrightarrow> same_settings src src'"
  by (auto simp: current_directory_def split: if_splits dest!: unpack_record_settings
      intro: same_settings_trans [OF same_settings_seek])

lemma list_ex_recognized:
  "list_ex (\<lambda>er. er \<in> set EXT_VERSIONS) (map (\<lambda>e. (ext_id e, ext_ver e)) (filter is_ER entries))
     = list_ex recognized entries"
  by (induction entries) (auto simp: recognized_def EXT_VERSIONS_def RRIP_109_def RRIP_112_def)

text \<open>
  C7, as amended. After the construction of the ISO on a source whose \<^verbatim>\<open>rockridge\<close> was
  false, \<^verbatim>\<open>source.rockridge\<close> is true if and only if the first embedded SUSP entry of
  the root directory's current-directory record is an \<^verbatim>\<open>SP\<close> and the full SUSP chain of
  that record, continuation areas included, yields an \<^verbatim>\<open>ER\<close> whose \<open>(ext_id, ext_ver)\<close>
  is \<open>(RRIP_1991A, 1)\<close> or \<open>(IEEE_P1282, 1)\<close>; otherwise it stays false.
\<close>

theorem rockridge_iff:
  assumes "ISO_init_susp dec fuel src root = Some (Inr src')"
    and "\<not> rockridge src"
    and "current_directory dec src root = Inr (Some root_record, src1)"
  shows "rockridge src' \<longleftrightarrow>
           (case embedded_susp_entries root_record of
              SP skp # _ \<Rightarrow>
                (\<exists>entries src3.
                   susp_entries dec fuel (src1\<lparr>susp_starting_index := PyInt skp\<rparr>)
                     (walk_init root_record) = Some (Inr (entries, src3))
                   \<and> list_ex recognized entries)
            | _ \<Rightarrow> False)"
proof -
  from current_directory_settings [OF assms(3)] assms(2) have r1: "\<not> rockridge src1"
    by (simp add: same_settings_def)
  show ?thesis
  proof (cases "embedded_susp_entries root_record \<noteq> []
      \<and> is_SP (embedded_susp_entries root_record ! 0)")
    case False
    with assms(1,3) have "src' = src1\<lparr>susp_starting_index := PyFalse\<rparr>"
      by (simp add: ISO_init_susp_def)
    with r1 False show ?thesis
      by (auto split: list.splits susp_entry.splits)
  next
    case True
    then obtain skp others where e: "embedded_susp_entries root_record = SP skp # others"
      by (cases "embedded_susp_entries root_record"; cases "hd (embedded_susp_entries root_record)")
        auto
    let ?src2 = "src1\<lparr>susp_starting_index := PyInt skp\<rparr>"
    from assms(1,3) e obtain entries src3 where
      w: "susp_entries dec fuel ?src2 (walk_init root_record) = Some (Inr (entries, src3))"
      and s: "src' = (if list_ex recognized entries
                     then src3\<lparr>susp_extensions := map (\<lambda>e. (ext_id e, ext_ver e)) (filter is_ER entries),
                                rockridge := True\<rparr>
                     else src3\<lparr>susp_extensions := map (\<lambda>e. (ext_id e, ext_ver e)) (filter is_ER entries)\<rparr>)"
      by (auto simp: ISO_init_susp_def Let_def obind_def list_ex_recognized
          split: option.splits sum.splits if_splits)
    from susp_entries_settings [OF w] r1 have "\<not> rockridge src3"
      by (simp add: same_settings_def)
    with s w e show ?thesis by auto
  qed
qed
theorem rockridge_iff_witness:
  "ISO_init_susp SUSP_Entry_unpack 4 (Source_init demo_image) (dir_record [] [])
     = Some (Inr (root_window (PyInt 7) [(''RRIP_1991A'', 1)] True 60))
   \<and> \<not> rockridge (Source_init demo_image)
   \<and> current_directory SUSP_Entry_unpack (Source_init demo_image) (dir_record [] [])
     = Inr (Some (dir_record [] [SP 7, ER ''RRIP_1991A'' 1]), root_window PyNone [] False 60)
   \<and> rockridge (root_window (PyInt 7) [(''RRIP_1991A'', 1)] True 60)
   \<and> list_ex recognized [SP 7, ER ''RRIP_1991A'' 1]"
proof -
  have r: "\<not> rockridge (Source_init demo_image)" by (simp add: Source_init_def)
  from rockridge_iff [OF demo_ISO_init r demo_current_directory] demo_ISO_init r
    demo_current_directory
  show ?thesis by (simp add: root_window_def recognized_def)
qed

text \<open>
  C7 as stated fails on a root record that carries an \<^verbatim>\<open>SP\<close> which is not its first
  embedded entry: the record carries an \<^verbatim>\<open>SP\<close> and the \<^verbatim>\<open>ER\<close> of Rock Ridge, and SUSP
  is switched off.
\<close>

theorem SP_not_first_counterexample:
  "map_sum id (map_option embedded_susp_entries \<circ> fst)
       (current_directory SUSP_Entry_unpack (Source_init late_image) (late_root []))
     = Inr (Some [ER ''RRIP_1991A'' 1, SP 0])
   \<and> map_option (map_sum id (\<lambda>s. (rockridge s, susp_starting_index s)))
       (ISO_init_susp SUSP_Entry_unpack 4 (Source_init late_image) (late_root []))
     = Some (Inr (False, PyFalse))"
  unfolding ISO_init_susp_def late_current_directory
  by (simp add: late_root_def late_window_def)
section \<open>The skip before the system-use entries\<close>






section \<open>Looking up children\<close>

lemma seek_RR_root: "seek (RR_window c) 1 176 = RR_window 0"
proof -
  have "disc (RR_window c) = demo_image" by simp
  from seek_root [OF this] show ?thesis by (simp add: root_window_def)
qed

lemma unpack_records:
  "unpack_record SUSP_Entry_unpack (RR_window 0) = Inr (Some (dir_record [] [ER ''RRIP_1991A'' 1]), RR_window 60)"
  "unpack_record SUSP_Entry_unpack (RR_window 60) = Inr (Some (dir_record [CHR 0x01] []), RR_window 102)"
  "unpack_record SUSP_Entry_unpack (RR_window 102) = Inr (Some long_file, RR_window 176)"
  using F2 F3 F4
  by (simp_all add: unpack_record_def length_bytes RRIP_109_def long_file_def One_nat_def [symmetric]
      del: One_nat_def)

lemma children_open_skip:
  "children_open SUSP_Entry_unpack (RR_window c) (dir_record [] es) True 0 = Inr (RR_window 102)"
  by (simp add: children_open_def seek_RR_root unpack_records)

lemma children_open_offset:
  "children_open SUSP_Entry_unpack (RR_window c) (dir_record [] es\<lparr>p_child_cache := cc, p_last_cached_child := l\<rparr>) False 176 = Inr (RR_window 176)"
  by (simp add: children_open_def seek_RR_root)

lemma children_next_file:
  "children_next SUSP_Entry_unpack (RR_window 102) = Inr (Some (long_file, RR_window 176))"
  by (subst children_next.simps) (simp add: unpack_records)

lemma children_next_end:
  "children_next SUSP_Entry_unpack (RR_window 176) = Inr None"
  by (subst children_next.simps) simp

lemma long_file_name:
  "Record_name dec (Suc (Suc fuel)) src long_file = Some (Inr (''longfilename.txt'', src))"
  by (simp add: Record_name_def long_file_def walk_init_def file_record_def walk_step_def
      after_yield_def NM_CONTINUE_def)

lemma long_file_sel [simp]: "is_directory long_file = 0" "location long_file = 2"
  "length_r long_file = 5" "p_content long_file = None"
  by (simp_all add: long_file_def file_record_def)

lemma first_lookup:
  "find_child SUSP_Entry_unpack (Suc (Suc (Suc fuel))) demo_world 0 ''longfilename.txt''
     = Some (Inr (2, demo_world_found))"
  by (simp add: find_child_def demo_world_def demo_world_found_def children_open_skip
      children_next_file long_file_name save_cursor_def restore_cursor_def Let_def
      numeral_2_eq_2 numeral_3_eq_3)


lemma seek_demo_file: "seek (RR_window c) 2 5 = (RR_window 0)\<lparr>p_buff := ''hello'', p_len := 5\<rparr>"
proof -
  have i: "demo_image = (replicate 2048 (CHR 0x00) @ root_dir @ replicate 1872 (CHR 0x00)) @ ''hello''"
    by (simp add: demo_image_def)
  have "length (replicate 2048 (CHR 0x00) @ root_dir @ replicate 1872 (CHR 0x00)) = 4096"
    by (simp add: length_root_dir)
  from drop_sector [OF this, of "''hello''"] have "drop 4096 demo_image = ''hello''"
    unfolding i .
  then show ?thesis by (simp add: seek_def SECTOR_LENGTH_def root_window_def)
qed

lemma find_child_cached:
  "find_child dec fuel
       (W\<lparr>heap := (heap W)(self := d\<lparr>p_child_cache := (cache)(nm \<mapsto> a)\<rparr>)\<rparr>) self nm
     = Some (Inr (a, W\<lparr>heap := (heap W)(self := d\<lparr>p_child_cache := (cache)(nm \<mapsto> a)\<rparr>)\<rparr>))"
  by (simp add: find_child_def)

lemma find_child_exhausted:
  "find_child dec fuel
       (W\<lparr>heap := (heap W)(self := d\<lparr>p_child_cache := Map.empty,
                                            p_last_cached_child := PyFalse\<rparr>)\<rparr>) self nm
     = Some (Inl UnboundLocalError)"
  by (simp add: find_child_def)

lemma second_lookup:
  "find_child SUSP_Entry_unpack fuel demo_world_found 0 ''longfilename.txt''
     = Some (Inr (1, demo_world_found))"
  by (simp add: find_child_def demo_world_found_def)

lemma content_of_cached:
  "map_sum id (\<lambda>(data, W). (data, p_content (heap W 1), p_content (heap W 2)))
       (Record_content demo_world_found 1)
     = Inr (''hello'', Some ''hello'', None)"
  by (simp add: Record_content_def demo_world_found_def seek_demo_file unpack_raw_def Let_def)

lemma miss_after_lookup:
  "find_child SUSP_Entry_unpack (Suc fuel) demo_world_found 0 ''nope''
     = Some (Inl UnboundLocalError)"
  by (simp add: find_child_def demo_world_found_def children_open_offset children_next_end)

lemma dir_name:
  "Record_name dec (Suc (Suc fuel)) src
       ((dir_record nm [])\<lparr>p_child_cache := cc, p_last_cached_child := l\<rparr>)
     = Some (Inr (nm, src))"
  by (simp add: Record_name_def walk_init_def walk_step_def)

lemma miss_first:
  "find_child SUSP_Entry_unpack (Suc (Suc (Suc fuel))) demo_world 0 ''nope'' = Some (Inl KeyError)"
  by (simp add: find_child_def demo_world_def children_open_skip
      children_next_file children_next_end long_file_name dir_name
      save_cursor_def restore_cursor_def Let_def)

text \<open>
  C8 fails when the generator yields no child in the call: the \<^verbatim>\<open>raise\<close> formats its
  message from the local \<^verbatim>\<open>child_name\<close>, which only the loop binds. A directory whose
  earlier scan reached the end (\<^verbatim>\<open>_last_cached_child\<close> is \<^verbatim>\<open>False\<close>) raises
  \<open>UnboundLocalError\<close> for every name that is not cached. So does the root directory of
  the image after \<open>longfilename.txt\<close>, its last child, was found: the next scan starts
  behind that child and yields nothing.
\<close>

theorem find_child_miss_unbound:
  "find_child dec fuel
       (W\<lparr>heap := (heap W)(self := d\<lparr>p_child_cache := Map.empty,
                                            p_last_cached_child := PyFalse\<rparr>)\<rparr>) self nm
     = Some (Inl UnboundLocalError)
   \<and> find_child SUSP_Entry_unpack 3 demo_world 0 ''longfilename.txt''
     = Some (Inr (2, demo_world_found))
   \<and> find_child SUSP_Entry_unpack 3 demo_world_found 0 ''nope'' = Some (Inl UnboundLocalError)"
  using find_child_exhausted first_lookup [of 0] miss_after_lookup [of 2]
  by (simp add: numeral_3_eq_3)

text \<open>
  C9 fails on a lookup that hits the child cache: the first line of \<^verbatim>\<open>find_child\<close>
  returns the cached object itself. In the image the first lookup of \<open>longfilename.txt\<close>
  returns the copy at address 2 and caches the record at address 1; the second lookup
  returns address 1, and reading \<^verbatim>\<open>content\<close> on it fills \<^verbatim>\<open>_content\<close> of the cached
  record.
\<close>

theorem find_child_cache_hit_is_cached:
  "find_child dec fuel
       (W\<lparr>heap := (heap W)(self := d\<lparr>p_child_cache := (cache)(nm \<mapsto> a)\<rparr>)\<rparr>) self nm
     = Some (Inr (a, W\<lparr>heap := (heap W)(self := d\<lparr>p_child_cache := (cache)(nm \<mapsto> a)\<rparr>)\<rparr>))
   \<and> find_child SUSP_Entry_unpack 3 demo_world 0 ''longfilename.txt''
     = Some (Inr (2, demo_world_found))
   \<and> p_child_cache (heap demo_world_found 0) ''longfilename.txt'' = Some 1
   \<and> find_child SUSP_Entry_unpack 3 demo_world_found 0 ''longfilename.txt''
     = Some (Inr (1, demo_world_found))
   \<and> map_sum id (\<lambda>(data, W). (data, p_content (heap W 1), p_content (heap W 2)))
       (Record_content demo_world_found 1)
     = Inr (''hello'', Some ''hello'', None)"
  using find_child_cached first_lookup [of 0]
    second_lookup [of 3] content_of_cached
  by (simp add: numeral_3_eq_3 demo_world_found_def)

end
